theory Spec2Isabelle
  imports Complex_Main
begin

section \<open>Numbers\<close>

text \<open>
  A JavaScript number is a binary64 value.  The model carries a finite number as the
  real it denotes and rounds the result of an addition or a subtraction the way binary64
  arithmetic does: to the nearest value with a significand of 53 bits, ties to the even
  significand, with the spacing of the subnormal numbers as the finest spacing.  NaN,
  the infinities (so also overflow) and the sign of zero are outside the model.  The
  rounded operations are used where the edges of a rectangle and the fitted window are
  computed; the margins are computed in exact arithmetic.

  \<open>expo x\<close> is the binade of a positive \<open>x\<close>: the \<open>k\<close> with
  \<open>2 ^ k \<le> x < 2 ^ (k + 1)\<close>, found by halving or doubling.
\<close>

function expo :: "real \<Rightarrow> int" where
  "expo x = (if 2 \<le> x then expo (x / 2) + 1
             else if 0 < x \<and> x < 1 then expo (x * 2) - 1
             else 0)"
  by pat_completeness auto
termination
proof (relation "measure (\<lambda>x. if 1 \<le> x then nat \<lfloor>x\<rfloor> else if 0 < x then nat \<lceil>1 / x\<rceil> + 1 else 0)")
  show "wf (measure (\<lambda>x::real. if 1 \<le> x then nat \<lfloor>x\<rfloor> else if 0 < x then nat \<lceil>1 / x\<rceil> + 1 else 0))"
    by simp
next
  fix x :: real
  assume "2 \<le> x"
  then have "\<lfloor>x / 2\<rfloor> < \<lfloor>x\<rfloor>" by (simp add: floor_less_iff) linarith
  moreover have "0 < \<lfloor>x\<rfloor>" using \<open>2 \<le> x\<close> by linarith
  ultimately show "(x / 2, x) \<in> measure (\<lambda>x. if 1 \<le> x then nat \<lfloor>x\<rfloor> else if 0 < x then nat \<lceil>1 / x\<rceil> + 1 else 0)"
    using \<open>2 \<le> x\<close> by simp
next
  fix x :: real
  assume a: "\<not> 2 \<le> x" "0 < x \<and> x < 1"
  show "(x * 2, x) \<in> measure (\<lambda>x. if 1 \<le> x then nat \<lfloor>x\<rfloor> else if 0 < x then nat \<lceil>1 / x\<rceil> + 1 else 0)"
  proof (cases "1 \<le> x * 2")
    case True
    have "\<lfloor>x * 2\<rfloor> = 1" using True a by linarith
    moreover have "1 < 1 / x" using a by simp
    then have "2 \<le> \<lceil>1 / x\<rceil>" by linarith
    ultimately show ?thesis using True a by simp
  next
    case False
    define y where "y = 1 / x"
    have y: "2 < y" using False a by (simp add: y_def field_simps)
    have h: "1 / (x * 2) = y / 2" by (simp add: y_def)
    have "real_of_int \<lceil>y / 2\<rceil> < y / 2 + 1" by linarith
    moreover have "y \<le> real_of_int \<lceil>y\<rceil>" by linarith
    ultimately have "real_of_int \<lceil>y / 2\<rceil> < real_of_int \<lceil>y\<rceil>"
      using y by linarith
    then have "\<lceil>y / 2\<rceil> < \<lceil>y\<rceil>" by (simp only: of_int_less_iff)
    then have "\<lceil>1 / (x * 2)\<rceil> < \<lceil>1 / x\<rceil>" by (simp only: h) (simp only: y_def)
    moreover have "0 < \<lceil>1 / x\<rceil>" using y unfolding y_def by linarith
    ultimately show ?thesis using False a by simp
  qed
qed

declare expo.simps [simp del]

text \<open>The nearest integer, the even one of the two when they are equally near.\<close>

definition round_half_even :: "real \<Rightarrow> int" where
  "round_half_even y =
     (let f = \<lfloor>y\<rfloor>; d = y - of_int f
      in if d < 1 / 2 then f
         else if 1 / 2 < d then f + 1
         else if even f then f else f + 1)"

text \<open>
  Rounding to binary64: in the binade \<open>k\<close> the representable numbers are the multiples
  of \<open>2 ^ (k - 52)\<close>, and no spacing is finer than \<open>2 ^ (- 1074)\<close>.
\<close>

definition round64 :: "real \<Rightarrow> real" where
  "round64 x =
     (let e = max (expo \<bar>x\<bar> - 52) (- 1074);
          q = 2 powi e
      in of_int (round_half_even (x / q)) * q)"

definition fadd :: "real \<Rightarrow> real \<Rightarrow> real" where
  "fadd a b = round64 (a + b)"

definition fsub :: "real \<Rightarrow> real \<Rightarrow> real" where
  "fsub a b = round64 (a - b)"

section \<open>Geometry of the position observer\<close>

text \<open>
  The observer works on the host's rectangles (\<open>DOMRect\<close>).  A rectangle is given by
  its origin and its size; the four edges are derived from them the way the host derives
  them (\<open>left\<close> is the smaller of \<open>x\<close> and the sum \<open>x + width\<close>, and so on), so a
  rectangle with a negative size still has \<open>left \<le> right\<close>.
\<close>

record DOMRect =
  rect_x :: real
  rect_y :: real
  rect_width :: real
  rect_height :: real

definition rect_left :: "DOMRect \<Rightarrow> real" where
  "rect_left r = min (rect_x r) (fadd (rect_x r) (rect_width r))"

definition rect_right :: "DOMRect \<Rightarrow> real" where
  "rect_right r = max (rect_x r) (fadd (rect_x r) (rect_width r))"

definition rect_top :: "DOMRect \<Rightarrow> real" where
  "rect_top r = min (rect_y r) (fadd (rect_y r) (rect_height r))"

definition rect_bottom :: "DOMRect \<Rightarrow> real" where
  "rect_bottom r = max (rect_y r) (fadd (rect_y r) (rect_height r))"

text \<open>
  The object literal \<open>{left, top, right, bottom}\<close> that \<open>constructBoxWindow\<close> returns
  and that \<open>getMargins\<close> reads (its parameter \<open>windowDimensions\<close> and its local
  \<open>viewportBounds\<close>).
\<close>

record box =
  box_left :: real
  box_top :: real
  box_right :: real
  box_bottom :: real

definition box_of_rect :: "DOMRect \<Rightarrow> box" where
  "box_of_rect r =
     \<lparr>box_left = rect_left r, box_top = rect_top r,
      box_right = rect_right r, box_bottom = rect_bottom r\<rparr>"

text \<open>A rectangle whose origin and size are whole numbers.\<close>

definition int_rect :: "int \<Rightarrow> int \<Rightarrow> int \<Rightarrow> int \<Rightarrow> DOMRect" where
  "int_rect a b w h =
     \<lparr>rect_x = of_int a, rect_y = of_int b, rect_width = of_int w, rect_height = of_int h\<rparr>"

text \<open>The host's \<open>visualViewport\<close>, read by \<open>getMargins\<close> when there are no root bounds.\<close>

record visualViewport =
  vv_offsetTop :: real
  vv_offsetLeft :: real
  vv_width :: real
  vv_height :: real

text \<open>
  The root margin handed to the host.  The source formats it as the string
  \<open>"<top>px <right>px <bottom>px <left>px"\<close>; the model keeps the four numbers.
\<close>

record margins =
  margin_top :: real
  margin_right :: real
  margin_bottom :: real
  margin_left :: real

definition zero_margins :: margins where
  "zero_margins = \<lparr>margin_top = 0, margin_right = 0, margin_bottom = 0, margin_left = 0\<rparr>"

definition constructBoxWindow :: "DOMRect \<Rightarrow> DOMRect \<Rightarrow> box" where
  "constructBoxWindow targetBounds rootBounds =
     (let constrainedLeft =
            min (max (rect_left rootBounds) (rect_left targetBounds))
                (fsub (rect_right rootBounds) (rect_width targetBounds));
          constrainedTop =
            min (max (rect_top rootBounds) (rect_top targetBounds))
                (fsub (rect_bottom rootBounds) (rect_height targetBounds));
          constrainedRight = fadd constrainedLeft (rect_width targetBounds);
          constrainedBottom = fadd constrainedTop (rect_height targetBounds)
      in \<lparr>box_left = constrainedLeft, box_top = constrainedTop,
          box_right = constrainedRight, box_bottom = constrainedBottom\<rparr>)"

definition getMargins :: "visualViewport \<Rightarrow> box \<Rightarrow> DOMRect option \<Rightarrow> margins" where
  "getMargins vv windowDimensions rootBounds =
     (let viewportBounds =
            (case rootBounds of
               None \<Rightarrow>
                 \<lparr>box_left = vv_offsetLeft vv, box_top = vv_offsetTop vv,
                  box_right = vv_width vv + vv_offsetLeft vv,
                  box_bottom = vv_height vv + vv_offsetTop vv\<rparr>
             | Some rb \<Rightarrow> box_of_rect rb);
          constrainedTopMarginOfWindow =
            min (- (box_top windowDimensions - 1 - box_top viewportBounds)) 0;
          constrainedRightMarginOfWindow =
            min (- (box_right viewportBounds - (box_right windowDimensions + 1))) 0;
          constrainedBottomMarginOfWindow =
            min (- (box_bottom viewportBounds - (box_bottom windowDimensions + 1))) 0;
          constrainedLeftMarginOfWindow =
            min (- (box_left windowDimensions - 1 - box_left viewportBounds)) 0
      in \<lparr>margin_top = constrainedTopMarginOfWindow,
          margin_right = constrainedRightMarginOfWindow,
          margin_bottom = constrainedBottomMarginOfWindow,
          margin_left = constrainedLeftMarginOfWindow\<rparr>)"

section \<open>The host: elements, intersection observers, animation frames\<close>

text \<open>
  An element is an opaque handle.  Where the source asks the host for an element's
  rectangle (\<open>getBoundingClientRect\<close>), the model takes the host's answer as a function
  from elements to rectangles, valid for the moment of the call.
\<close>

type_synonym element = nat

record IntersectionObserverEntry =
  entry_target :: element
  entry_boundingClientRect :: DOMRect
  entry_intersectionRect :: DOMRect
  entry_rootBounds :: "DOMRect option"
  entry_intersectionRatio :: real

record positionData =
  pd_x :: real
  pd_y :: real
  pd_target :: element
  pd_outOfViewport :: bool
  pd_rootBounds :: "DOMRect option"

record positionInfo =
  info_top :: real
  info_left :: real
  info_width :: real
  info_height :: real

text \<open>
  An \<open>IntersectionObserver\<close> object: the function given as its callback, the root and
  the root margin it was created with, and its observation targets.  An observer is live
  while it has a target; \<open>disconnect\<close> empties the targets.  The observers a
  controller has created are kept in a list, and a reference to one is its index.
\<close>

datatype io_root = ImplicitRoot | DocumentRoot

record 'cb IntersectionObserver =
  io_callback :: 'cb
  io_root :: io_root
  io_rootMargin :: margins
  io_targets :: "element list"

definition new_IntersectionObserver ::
  "'cb \<Rightarrow> io_root \<Rightarrow> margins \<Rightarrow> 'cb IntersectionObserver list
     \<Rightarrow> nat \<times> 'cb IntersectionObserver list" where
  "new_IntersectionObserver cb rt m obs =
     (length obs,
      obs @ [\<lparr>io_callback = cb, io_root = rt, io_rootMargin = m, io_targets = []\<rparr>])"

definition update_targets ::
  "nat \<Rightarrow> (element list \<Rightarrow> element list) \<Rightarrow> 'cb IntersectionObserver list
     \<Rightarrow> 'cb IntersectionObserver list" where
  "update_targets i f obs =
     (if i < length obs then obs[i := (obs ! i)\<lparr>io_targets := f (io_targets (obs ! i))\<rparr>]
      else obs)"

definition io_observe ::
  "nat \<Rightarrow> element \<Rightarrow> 'cb IntersectionObserver list \<Rightarrow> 'cb IntersectionObserver list" where
  "io_observe i t obs = update_targets i (\<lambda>ts. if t \<in> set ts then ts else ts @ [t]) obs"

definition io_unobserve ::
  "nat \<Rightarrow> element \<Rightarrow> 'cb IntersectionObserver list \<Rightarrow> 'cb IntersectionObserver list" where
  "io_unobserve i t obs = update_targets i (removeAll t) obs"

definition io_disconnect ::
  "nat \<Rightarrow> 'cb IntersectionObserver list \<Rightarrow> 'cb IntersectionObserver list" where
  "io_disconnect i obs = update_targets i (\<lambda>ts. []) obs"

text \<open>The observers that still have a target, by index.\<close>

definition live :: "'cb IntersectionObserver list \<Rightarrow> nat list" where
  "live obs = filter (\<lambda>i. io_targets (obs ! i) \<noteq> []) [0..<length obs]"

text \<open>The methods of the version 2 controller that are bound as observer callbacks.\<close>

datatype io_callback = ViewportWindowDetectionCallback | FinerWindowCallback

text \<open>
  A callback handed to \<open>requestAnimationFrame\<close>: one of the two bound poll methods, or
  the arrow function of \<open>finerWindowCallback\<close>, which closes over the entry.
\<close>

datatype frame_callback =
    RepeatedCheck
  | StopConfirmationCheck
  | FinerWindowFrame IntersectionObserverEntry

datatype error = TypeError

section \<open>The controller (version 2)\<close>

text \<open>
  The fields of the class, followed by the part of the host the class acts on: the
  observers it has created (a reference is an index into \<open>observers\<close>), the pending
  animation frame requests with their handles, the next handle, and the log of the
  invocations of the reporting callback.
\<close>

record PositionObserver =
  intersectionObserver :: "nat option"
  positionRAF :: "nat option"
  previousPositionInfo :: "positionInfo option"
  target :: "element option"
  timeToWaitTillStopConfirmed :: int
  waitTime :: real
  stopWaitTime :: real
  stopped :: bool
  observers :: "io_callback IntersectionObserver list"
  frames :: "(nat \<times> frame_callback) list"
  nextHandle :: nat
  reports :: "positionData list"

text \<open>The constructor; handles of animation frame requests are positive.\<close>

definition PositionObserver_new :: PositionObserver where
  "PositionObserver_new =
     \<lparr>intersectionObserver = None, positionRAF = None, previousPositionInfo = None,
      target = None, timeToWaitTillStopConfirmed = 0, waitTime = 0, stopWaitTime = 1000,
      stopped = False, observers = [], frames = [], nextHandle = 1, reports = []\<rparr>"

subsection \<open>Host operations\<close>

definition requestAnimationFrame ::
  "frame_callback \<Rightarrow> PositionObserver \<Rightarrow> nat \<times> PositionObserver" where
  "requestAnimationFrame cb s =
     (nextHandle s,
      s\<lparr>frames := frames s @ [(nextHandle s, cb)], nextHandle := nextHandle s + 1\<rparr>)"

definition cancelAnimationFrame :: "nat \<Rightarrow> PositionObserver \<Rightarrow> PositionObserver" where
  "cancelAnimationFrame h s = s\<lparr>frames := filter (\<lambda>p. fst p \<noteq> h) (frames s)\<rparr>"

text \<open>The reporting callback is the caller's; the model records each invocation.\<close>

definition positionObserverCallback :: "positionData \<Rightarrow> PositionObserver \<Rightarrow> PositionObserver" where
  "positionObserverCallback d s = s\<lparr>reports := reports s @ [d]\<rparr>"

subsection \<open>Methods\<close>

text \<open>
  \<open>this.intersectionObserver?.unobserve(target)\<close>, \<open>?.observe(target)\<close> and the
  public \<open>disconnect()\<close>, whose body is \<open>this.intersectionObserver?.disconnect()\<close>.
\<close>

definition unobserve_current :: "element \<Rightarrow> PositionObserver \<Rightarrow> PositionObserver" where
  "unobserve_current t s =
     (case intersectionObserver s of
        None \<Rightarrow> s
      | Some i \<Rightarrow> s\<lparr>observers := io_unobserve i t (observers s)\<rparr>)"

definition observe_current :: "element \<Rightarrow> PositionObserver \<Rightarrow> PositionObserver" where
  "observe_current t s =
     (case intersectionObserver s of
        None \<Rightarrow> s
      | Some i \<Rightarrow> s\<lparr>observers := io_observe i t (observers s)\<rparr>)"

definition disconnect :: "PositionObserver \<Rightarrow> PositionObserver" where
  "disconnect s =
     (case intersectionObserver s of
        None \<Rightarrow> s
      | Some i \<Rightarrow> s\<lparr>observers := io_disconnect i (observers s)\<rparr>)"

definition observe :: "element \<Rightarrow> PositionObserver \<Rightarrow> PositionObserver" where
  "observe targetElement s =
     (let (i, obs) = new_IntersectionObserver ViewportWindowDetectionCallback DocumentRoot
                        zero_margins (observers s);
          s1 = s\<lparr>observers := obs, intersectionObserver := Some i\<rparr>;
          s2 = s1\<lparr>observers := io_observe i targetElement (observers s1)\<rparr>
      in s2\<lparr>target := Some targetElement\<rparr>)"

text \<open>
  \<open>e[0]\<close> of an empty batch is \<open>undefined\<close>, and reading its \<open>target\<close> throws.  So
  does \<open>constructBoxWindow\<close> when the entry has no root bounds (it reads
  \<open>rootBounds.left\<close>), after the current observer has been disconnected; an exception
  is returned with the state it leaves behind.
\<close>

definition viewportWindowDetectionCallback ::
  "visualViewport \<Rightarrow> IntersectionObserverEntry list \<Rightarrow> PositionObserver
     \<Rightarrow> (error \<times> PositionObserver) + PositionObserver" where
  "viewportWindowDetectionCallback vv e s =
     (case e of
        [] \<Rightarrow> Inl (TypeError, s)
      | entry # _ \<Rightarrow>
          let tgt = entry_target entry;
              targetBounds = entry_boundingClientRect entry
          in if entry_intersectionRatio entry > 0 then
               let s1 = unobserve_current tgt s;
                   s2 = disconnect s1
               in (case entry_rootBounds entry of
                     None \<Rightarrow> Inl (TypeError, s2)
                   | Some rb \<Rightarrow>
                       let rootMargin =
                             getMargins vv
                               (constructBoxWindow (entry_intersectionRect entry) rb)
                               (entry_rootBounds entry);
                           (i, obs) = new_IntersectionObserver FinerWindowCallback
                                        DocumentRoot rootMargin (observers s2);
                           s3 = s2\<lparr>observers := obs, intersectionObserver := Some i\<rparr>
                       in Inr (observe_current tgt s3))
             else
               Inr (positionObserverCallback
                      \<lparr>pd_x = rect_left targetBounds, pd_y = rect_top targetBounds,
                       pd_target = tgt, pd_outOfViewport = True,
                       pd_rootBounds = entry_rootBounds entry\<rparr> s))"

definition hasPositionChanged :: "DOMRect \<Rightarrow> PositionObserver \<Rightarrow> bool" where
  "hasPositionChanged currentRect s =
     (case previousPositionInfo s of
        None \<Rightarrow> True
      | Some p \<Rightarrow>
          info_left p \<noteq> rect_left currentRect \<or>
          info_top p \<noteq> rect_top currentRect \<or>
          info_width p \<noteq> rect_width currentRect \<or>
          info_height p \<noteq> rect_height currentRect)"

definition updatePosition :: "DOMRect \<Rightarrow> PositionObserver \<Rightarrow> PositionObserver" where
  "updatePosition currentRect s =
     s\<lparr>previousPositionInfo :=
          Some \<lparr>info_top = rect_top currentRect, info_left = rect_left currentRect,
                info_width = rect_width currentRect, info_height = rect_height currentRect\<rparr>\<rparr>"

text \<open>\<open>if (this.positionRAF) cancelAnimationFrame(this.positionRAF)\<close>: zero is falsy.\<close>

definition cancel_positionRAF :: "PositionObserver \<Rightarrow> PositionObserver" where
  "cancel_positionRAF s =
     (case positionRAF s of
        None \<Rightarrow> s
      | Some h \<Rightarrow> if h = 0 then s else cancelAnimationFrame h s)"

definition repeatedCheck :: "(element \<Rightarrow> DOMRect) \<Rightarrow> PositionObserver \<Rightarrow> PositionObserver" where
  "repeatedCheck getBoundingClientRect s =
     (case target s of
        Some t \<Rightarrow>
          let targetRect = getBoundingClientRect t
          in if hasPositionChanged targetRect s then
               let s1 = updatePosition targetRect s;
                   s2 = positionObserverCallback
                          \<lparr>pd_x = rect_left targetRect, pd_y = rect_top targetRect,
                           pd_target = t, pd_outOfViewport = False,
                           pd_rootBounds = Some targetRect\<rparr> s1;
                   s3 = s2\<lparr>timeToWaitTillStopConfirmed := \<lceil>waitTime s2 / 16\<rceil>\<rparr>;
                   (h, s4) = requestAnimationFrame RepeatedCheck s3
               in s4\<lparr>positionRAF := Some h\<rparr>
             else if timeToWaitTillStopConfirmed s \<noteq> 0 then
               let s1 = s\<lparr>timeToWaitTillStopConfirmed := timeToWaitTillStopConfirmed s - 1\<rparr>;
                   (h, s2) = requestAnimationFrame RepeatedCheck s1
               in s2\<lparr>positionRAF := Some h\<rparr>
             else
               observe t (cancel_positionRAF s)
      | None \<Rightarrow> cancel_positionRAF s)"

definition stopConfirmationCheck ::
  "(element \<Rightarrow> DOMRect) \<Rightarrow> PositionObserver \<Rightarrow> PositionObserver" where
  "stopConfirmationCheck getBoundingClientRect s =
     (case target s of
        Some t \<Rightarrow>
          let targetRect = getBoundingClientRect t
          in if hasPositionChanged targetRect s then
               let s1 = updatePosition targetRect s;
                   s2 = positionObserverCallback
                          \<lparr>pd_x = rect_left targetRect, pd_y = rect_top targetRect,
                           pd_target = t, pd_outOfViewport = False,
                           pd_rootBounds = Some targetRect\<rparr> s1;
                   s3 = s2\<lparr>timeToWaitTillStopConfirmed := \<lceil>stopWaitTime s2 / 16\<rceil>\<rparr>;
                   (h, s4) = requestAnimationFrame StopConfirmationCheck s3
               in s4\<lparr>positionRAF := Some h\<rparr>
             else if timeToWaitTillStopConfirmed s \<noteq> 0 then
               let s1 = s\<lparr>timeToWaitTillStopConfirmed := timeToWaitTillStopConfirmed s - 1\<rparr>;
                   (h, s2) = requestAnimationFrame StopConfirmationCheck s1
               in s2\<lparr>positionRAF := Some h\<rparr>
             else
               let s1 = (case positionRAF s of
                           None \<Rightarrow> s
                         | Some h \<Rightarrow>
                             if h = 0 then s
                             else cancelAnimationFrame h (s\<lparr>stopped := True\<rparr>))
               in observe t s1
      | None \<Rightarrow> cancel_positionRAF s)"

text \<open>
  \<open>finerWindowCallback\<close> only reads the first entry and defers everything else to the
  next animation frame; the handle of that request is not kept.  \<open>finerWindowFrame\<close>
  is the body of the deferred arrow function.
\<close>

definition finerWindowCallback ::
  "IntersectionObserverEntry list \<Rightarrow> PositionObserver
     \<Rightarrow> (error \<times> PositionObserver) + PositionObserver" where
  "finerWindowCallback e s =
     (case e of
        [] \<Rightarrow> Inl (TypeError, s)
      | entry # _ \<Rightarrow> Inr (snd (requestAnimationFrame (FinerWindowFrame entry) s)))"

definition finerWindowFrame :: "IntersectionObserverEntry \<Rightarrow> PositionObserver \<Rightarrow> PositionObserver" where
  "finerWindowFrame entry s =
     (let tgt = entry_target entry;
          targetBounds = entry_boundingClientRect entry;
          ratio = entry_intersectionRatio entry;
          s1 = (if hasPositionChanged (entry_boundingClientRect entry) s then
                  let a = s\<lparr>stopped := False\<rparr>;
                      b = updatePosition (entry_boundingClientRect entry) a;
                      c = positionObserverCallback
                            \<lparr>pd_x = rect_left targetBounds, pd_y = rect_top targetBounds,
                             pd_target = tgt, pd_outOfViewport = False,
                             pd_rootBounds = entry_rootBounds entry\<rparr> b
                  in if ratio > 0 \<and> ratio < 1 then
                       let d = disconnect (unobserve_current tgt c);
                           f = d\<lparr>timeToWaitTillStopConfirmed := \<lceil>waitTime d / 16\<rceil>\<rparr>;
                           g = f\<lparr>stopped := False\<rparr>;
                           (h, k) = requestAnimationFrame RepeatedCheck g
                       in k\<lparr>positionRAF := Some h\<rparr>
                     else c
                else s);
          s2 = (if ratio = 0 then observe tgt (disconnect (unobserve_current tgt s1)) else s1);
          s3 = (if ratio = 1 then
                  (if \<not> stopped s2 then
                     let a = s2\<lparr>timeToWaitTillStopConfirmed := \<lceil>stopWaitTime s2 / 16\<rceil>\<rparr>;
                         (h, b) = requestAnimationFrame StopConfirmationCheck a
                     in b\<lparr>positionRAF := Some h\<rparr>
                   else s2)
                else s2)
      in s3)"

subsection \<open>The host's two ways of calling back\<close>

text \<open>
  The host delivers a batch of entries to an observer by calling the method bound to it,
  and runs a pending animation frame request by removing it from the queue and calling
  its callback.  Neither looks at whether the observer still has targets: a notification
  queued before a \<open>disconnect\<close> can still be delivered after it.
\<close>

definition deliver ::
  "visualViewport \<Rightarrow> nat \<Rightarrow> IntersectionObserverEntry list \<Rightarrow> PositionObserver
     \<Rightarrow> (error \<times> PositionObserver) + PositionObserver" where
  "deliver vv i e s =
     (if i < length (observers s) then
        (case io_callback (observers s ! i) of
           ViewportWindowDetectionCallback \<Rightarrow> viewportWindowDetectionCallback vv e s
         | FinerWindowCallback \<Rightarrow> finerWindowCallback e s)
      else Inr s)"

definition run_frame_callback ::
  "(element \<Rightarrow> DOMRect) \<Rightarrow> frame_callback \<Rightarrow> PositionObserver \<Rightarrow> PositionObserver" where
  "run_frame_callback getBoundingClientRect cb s =
     (case cb of
        RepeatedCheck \<Rightarrow> repeatedCheck getBoundingClientRect s
      | StopConfirmationCheck \<Rightarrow> stopConfirmationCheck getBoundingClientRect s
      | FinerWindowFrame entry \<Rightarrow> finerWindowFrame entry s)"

definition fire_frame ::
  "(element \<Rightarrow> DOMRect) \<Rightarrow> nat \<Rightarrow> PositionObserver \<Rightarrow> PositionObserver" where
  "fire_frame getBoundingClientRect h s =
     (case map_of (frames s) h of
        None \<Rightarrow> s
      | Some cb \<Rightarrow> run_frame_callback getBoundingClientRect cb (cancelAnimationFrame h s))"

text \<open>
  One tick of the poll loop: the host runs the request whose handle the controller holds
  in \<open>positionRAF\<close>.  \<open>poll_ticks n\<close> is \<open>n\<close> ticks in a row during which the host
  answers the geometry query the same way.
\<close>

definition poll_tick :: "(element \<Rightarrow> DOMRect) \<Rightarrow> PositionObserver \<Rightarrow> PositionObserver" where
  "poll_tick getBoundingClientRect s =
     (case positionRAF s of
        None \<Rightarrow> s
      | Some h \<Rightarrow> fire_frame getBoundingClientRect h s)"

fun poll_ticks :: "nat \<Rightarrow> (element \<Rightarrow> DOMRect) \<Rightarrow> PositionObserver \<Rightarrow> PositionObserver" where
  "poll_ticks 0 getBoundingClientRect s = s"
| "poll_ticks (Suc n) getBoundingClientRect s =
     poll_ticks n getBoundingClientRect (poll_tick getBoundingClientRect s)"

subsection \<open>Runs of the controller\<close>

text \<open>
  What can happen to a controller: its two public methods are called, the host delivers
  a batch to one of its observers, or the host runs a pending animation frame request.
  An exception thrown in a callback ends that callback only; the controller goes on from
  the state the callback left behind.
\<close>

datatype event =
    Observe element
  | Disconnect
  | Notify visualViewport nat "IntersectionObserverEntry list"
  | Frame "element \<Rightarrow> DOMRect" nat

definition outcome_state :: "(error \<times> 's) + 's \<Rightarrow> 's" where
  "outcome_state r = (case r of Inl (_, s) \<Rightarrow> s | Inr s \<Rightarrow> s)"

fun step :: "event \<Rightarrow> PositionObserver \<Rightarrow> (error \<times> PositionObserver) + PositionObserver" where
  "step (Observe t) s = Inr (observe t s)"
| "step Disconnect s = Inr (disconnect s)"
| "step (Notify vv i e) s = deliver vv i e s"
| "step (Frame g h) s = Inr (fire_frame g h s)"

fun run :: "event list \<Rightarrow> PositionObserver \<Rightarrow> PositionObserver" where
  "run [] s = s"
| "run (ev # evs) s = run evs (outcome_state (step ev s))"

text \<open>
  The handles of the pending requests are below the next handle, so a new request never
  reuses the handle of a pending one.
\<close>

definition handles_ok :: "PositionObserver \<Rightarrow> bool" where
  "handles_ok s = list_all (\<lambda>p. fst p < nextHandle s) (frames s)"

text \<open>
  The poll loop is running for target \<open>t\<close>: the controller holds the handle \<open>h\<close> of
  a pending request for \<open>repeatedCheck\<close>.
\<close>

definition poll_pending :: "element \<Rightarrow> nat \<Rightarrow> PositionObserver \<Rightarrow> bool" where
  "poll_pending t h s =
     (target s = Some t \<and> positionRAF s = Some h
      \<and> map_of (frames s) h = Some RepeatedCheck \<and> handles_ok s)"

text \<open>
  Two properties that every state reached from a new controller has (they are shown to
  be invariants below).  First, the references are sound: the handles are as above, and
  the controller's observer, if it has one, exists.  Second, a request for a poll method
  is pending only when a position sample is recorded.
\<close>

definition controller_ok :: "PositionObserver \<Rightarrow> bool" where
  "controller_ok s =
     (handles_ok s \<and>
      (case intersectionObserver s of None \<Rightarrow> True | Some i \<Rightarrow> i < length (observers s)))"

definition is_poll_callback :: "frame_callback \<Rightarrow> bool" where
  "is_poll_callback cb =
     (case cb of RepeatedCheck \<Rightarrow> True | StopConfirmationCheck \<Rightarrow> True
      | FinerWindowFrame _ \<Rightarrow> False)"

definition sample_before_polling :: "PositionObserver \<Rightarrow> bool" where
  "sample_before_polling s =
     (case previousPositionInfo s of
        None \<Rightarrow> list_all (\<lambda>p. \<not> is_poll_callback (snd p)) (frames s)
      | Some _ \<Rightarrow> True)"

subsection \<open>A concrete setting for examples\<close>

definition example_viewport :: visualViewport where
  "example_viewport = \<lparr>vv_offsetTop = 0, vv_offsetLeft = 0, vv_width = 100, vv_height = 100\<rparr>"

definition example_root :: DOMRect where
  "example_root = \<lparr>rect_x = 0, rect_y = 0, rect_width = 100, rect_height = 100\<rparr>"

text \<open>
  The target (element 7) is 30 wide and 40 high.  It is met outside the viewport, fully
  inside it, shifted to the right by 16, and moved further to the right.
\<close>

definition example_outside :: DOMRect where
  "example_outside = \<lparr>rect_x = 150, rect_y = 20, rect_width = 30, rect_height = 40\<rparr>"

definition example_bounds :: DOMRect where
  "example_bounds = \<lparr>rect_x = 10, rect_y = 20, rect_width = 30, rect_height = 40\<rparr>"

definition example_shifted :: DOMRect where
  "example_shifted = \<lparr>rect_x = 26, rect_y = 20, rect_width = 30, rect_height = 40\<rparr>"

definition example_moved :: DOMRect where
  "example_moved = \<lparr>rect_x = 60, rect_y = 20, rect_width = 30, rect_height = 40\<rparr>"

definition example_empty :: DOMRect where
  "example_empty = \<lparr>rect_x = 0, rect_y = 0, rect_width = 0, rect_height = 0\<rparr>"

text \<open>
  The root of the fine watcher: the viewport shrunk by the margins computed for the
  window around \<open>example_bounds\<close>, which is that window widened by one unit.
\<close>

definition example_window :: DOMRect where
  "example_window = \<lparr>rect_x = 9, rect_y = 19, rect_width = 32, rect_height = 42\<rparr>"

text \<open>
  Entries as the host computes them: for the coarse watcher with the target outside and
  with the target fully inside the viewport; for the fine watcher with half of the
  shifted target inside the window and with the moved target outside it.
\<close>

definition example_entry_outside :: IntersectionObserverEntry where
  "example_entry_outside =
     \<lparr>entry_target = 7, entry_boundingClientRect = example_outside,
      entry_intersectionRect = example_empty, entry_rootBounds = Some example_root,
      entry_intersectionRatio = 0\<rparr>"

definition example_entry_visible :: IntersectionObserverEntry where
  "example_entry_visible =
     \<lparr>entry_target = 7, entry_boundingClientRect = example_bounds,
      entry_intersectionRect = example_bounds, entry_rootBounds = Some example_root,
      entry_intersectionRatio = 1\<rparr>"

definition example_entry_shifted :: IntersectionObserverEntry where
  "example_entry_shifted =
     \<lparr>entry_target = 7, entry_boundingClientRect = example_shifted,
      entry_intersectionRect = \<lparr>rect_x = 26, rect_y = 20, rect_width = 15, rect_height = 40\<rparr>,
      entry_rootBounds = Some example_window, entry_intersectionRatio = 1 / 2\<rparr>"

definition example_entry_gone :: IntersectionObserverEntry where
  "example_entry_gone =
     \<lparr>entry_target = 7, entry_boundingClientRect = example_moved,
      entry_intersectionRect = example_empty, entry_rootBounds = Some example_window,
      entry_intersectionRatio = 0\<rparr>"

text \<open>
  The target is fully visible: the viewport handler has replaced the coarse watcher by
  a fine one (observer 1).
\<close>

definition example_fine_state :: PositionObserver where
  "example_fine_state =
     run [Observe 7, Notify example_viewport 0 [example_entry_visible]] PositionObserver_new"

text \<open>
  Before the fine watcher's first notification the target has shifted, and the deferred
  body of the fine handler has run: one report, and the poll loop is entered (request 2).
\<close>

definition example_polling_state :: PositionObserver where
  "example_polling_state =
     run [Notify example_viewport 1 [example_entry_shifted], Frame (\<lambda>_. example_shifted) 1]
       example_fine_state"

section \<open>The controller with two observers (two-io-differing-ir)\<close>

text \<open>
  This variant has no poll loop.  \<open>observe\<close> creates a backup observer on the implicit
  root whose callback restarts the main observer; reports are events dispatched on the
  target, recorded here in the order they are dispatched.
\<close>

datatype io_callback_2io =
    BackupViewportCallback
  | ViewportWindowDetectionCallback_2io
  | FinerWindowDetectionCallback

record movementEvent =
  event_target :: element
  event_rootBounds :: "DOMRect option"
  event_outOfViewport :: bool

record PositionObserver_2io =
  intersectionObserver_2io :: "nat option"
  target_2io :: "element option"
  viewportIR :: "real option"
  viewportVisible :: "bool option"
  backupViewportIntersectionObserver :: "nat option"
  observers_2io :: "io_callback_2io IntersectionObserver list"
  dispatched :: "movementEvent list"

definition PositionObserver_2io_new :: PositionObserver_2io where
  "PositionObserver_2io_new =
     \<lparr>intersectionObserver_2io = None, target_2io = None, viewportIR = None,
      viewportVisible = None, backupViewportIntersectionObserver = None,
      observers_2io = [], dispatched = []\<rparr>"

definition observe_2io :: "element \<Rightarrow> PositionObserver_2io \<Rightarrow> PositionObserver_2io" where
  "observe_2io targetElement s =
     (let s1 = s\<lparr>target_2io := Some targetElement\<rparr>;
          (i, obs) = new_IntersectionObserver BackupViewportCallback ImplicitRoot
                        zero_margins (observers_2io s1);
          s2 = s1\<lparr>observers_2io := obs, backupViewportIntersectionObserver := Some i\<rparr>
      in s2\<lparr>observers_2io := io_observe i targetElement (observers_2io s2)\<rparr>)"

definition setupIntersectionObserverFromStart ::
  "element \<Rightarrow> PositionObserver_2io \<Rightarrow> PositionObserver_2io" where
  "setupIntersectionObserverFromStart targetElement s =
     (let (i, obs) = new_IntersectionObserver ViewportWindowDetectionCallback_2io DocumentRoot
                        zero_margins (observers_2io s);
          s1 = s\<lparr>observers_2io := obs, intersectionObserver_2io := Some i\<rparr>;
          s2 = s1\<lparr>observers_2io := io_observe i targetElement (observers_2io s1)\<rparr>
      in s2\<lparr>target_2io := Some targetElement\<rparr>)"

text \<open>The arrow function that \<open>observe\<close> gives to the backup observer.\<close>

definition backupViewportCallback ::
  "IntersectionObserverEntry list \<Rightarrow> PositionObserver_2io
     \<Rightarrow> (error \<times> PositionObserver_2io) + PositionObserver_2io" where
  "backupViewportCallback e s =
     (case e of
        [] \<Rightarrow> Inl (TypeError, s)
      | entry # _ \<Rightarrow>
          let s1 = (case intersectionObserver_2io s of
                      None \<Rightarrow> s
                    | Some i \<Rightarrow>
                        s\<lparr>observers_2io :=
                             io_disconnect i (io_unobserve i (entry_target entry) (observers_2io s))\<rparr>)
          in Inr (setupIntersectionObserverFromStart (entry_target entry) s1))"

text \<open>\<open>!this.viewportVisible\<close> is true while the field is still undefined.\<close>

definition reportPosition :: "DOMRect option \<Rightarrow> PositionObserver_2io \<Rightarrow> PositionObserver_2io" where
  "reportPosition rootBounds s =
     (case target_2io s of
        None \<Rightarrow> s
      | Some t \<Rightarrow>
          s\<lparr>dispatched := dispatched s @
               [\<lparr>event_target = t, event_rootBounds = rootBounds,
                 event_outOfViewport =
                   (case viewportVisible s of None \<Rightarrow> True | Some v \<Rightarrow> \<not> v)\<rparr>]\<rparr>)"

definition getMargins_2io :: "box \<Rightarrow> DOMRect \<Rightarrow> margins" where
  "getMargins_2io windowDimensions rootBounds =
     (let viewportBounds = box_of_rect rootBounds;
          constrainedTopMarginOfWindow =
            min (- (box_top windowDimensions - 1 - box_top viewportBounds)) 0;
          constrainedRightMarginOfWindow =
            min (- (box_right viewportBounds - (box_right windowDimensions + 1))) 0;
          constrainedBottomMarginOfWindow =
            min (- (box_bottom viewportBounds - (box_bottom windowDimensions + 1))) 0;
          constrainedLeftMarginOfWindow =
            min (- (box_left windowDimensions - 1 - box_left viewportBounds)) 0
      in \<lparr>margin_top = constrainedTopMarginOfWindow,
          margin_right = constrainedRightMarginOfWindow,
          margin_bottom = constrainedBottomMarginOfWindow,
          margin_left = constrainedLeftMarginOfWindow\<rparr>)"

text \<open>
  Here the margins are computed first, so an entry without root bounds throws before the
  current observer is touched; and the observer is used without \<open>?.\<close>, so a missing
  one throws as well.
\<close>

definition viewportWindowDetectionCallback_2io ::
  "IntersectionObserverEntry list \<Rightarrow> PositionObserver_2io
     \<Rightarrow> (error \<times> PositionObserver_2io) + PositionObserver_2io" where
  "viewportWindowDetectionCallback_2io e s =
     (case e of
        [] \<Rightarrow> Inl (TypeError, s)
      | entry # _ \<Rightarrow>
          let IR = entry_intersectionRatio entry;
              s1 = s\<lparr>viewportVisible := Some (IR > 0)\<rparr>;
              s2 = reportPosition (entry_rootBounds entry) s1;
              s3 = s2\<lparr>viewportIR := Some IR\<rparr>
          in if IR > 0 then
               (case entry_rootBounds entry of
                  None \<Rightarrow> Inl (TypeError, s3)
                | Some rb \<Rightarrow>
                    let rootMargin =
                          getMargins_2io (box_of_rect (entry_intersectionRect entry)) rb
                    in (case intersectionObserver_2io s3 of
                          None \<Rightarrow> Inl (TypeError, s3)
                        | Some i \<Rightarrow>
                            let s4 = s3\<lparr>observers_2io :=
                                          io_disconnect i
                                            (io_unobserve i (entry_target entry) (observers_2io s3))\<rparr>;
                                (j, obs) = new_IntersectionObserver FinerWindowDetectionCallback
                                             DocumentRoot rootMargin (observers_2io s4);
                                s5 = s4\<lparr>observers_2io := obs, intersectionObserver_2io := Some j\<rparr>
                            in Inr (s5\<lparr>observers_2io :=
                                         io_observe j (entry_target entry) (observers_2io s5)\<rparr>)))
             else Inr s3)"

definition finerWindowDetectionCallback ::
  "IntersectionObserverEntry list \<Rightarrow> PositionObserver_2io
     \<Rightarrow> (error \<times> PositionObserver_2io) + PositionObserver_2io" where
  "finerWindowDetectionCallback e s =
     (case e of
        [] \<Rightarrow> Inl (TypeError, s)
      | entry # _ \<Rightarrow>
          let IR = entry_intersectionRatio entry;
              s1 = reportPosition (entry_rootBounds entry) s
          in if viewportIR s1 \<noteq> Some IR then
               (case intersectionObserver_2io s1 of
                  None \<Rightarrow> Inl (TypeError, s1)
                | Some i \<Rightarrow>
                    Inr (setupIntersectionObserverFromStart (entry_target entry)
                           (s1\<lparr>observers_2io := io_disconnect i (observers_2io s1)\<rparr>)))
             else Inr s1)"

section \<open>Properties of the rounding\<close>

text \<open>
  \<open>expo\<close> finds the binade, and an integer below \<open>2 ^ 53\<close> in magnitude is
  representable: rounding returns it.
\<close>

lemma expo_bounds:
  "0 < x \<Longrightarrow> 2 powi expo x \<le> x \<and> x < 2 powi (expo x + 1)"
proof (induction x rule: expo.induct)
  case (1 x)
  show ?case
  proof (cases "2 \<le> x")
    case True
    then have e: "expo x = expo (x / 2) + 1" by (simp add: expo.simps[of x])
    have "0 < x / 2" using 1(3) by simp
    from 1(1)[OF True this]
    have "2 powi expo (x / 2) \<le> x / 2" "x / 2 < 2 powi (expo (x / 2) + 1)" by simp_all
    then show ?thesis unfolding e by (simp add: power_int_add field_simps)
  next
    case False
    show ?thesis
    proof (cases "0 < x \<and> x < 1")
      case True
      then have e: "expo x = expo (x * 2) - 1" using False by (simp add: expo.simps[of x])
      have "0 < x * 2" using 1(3) by simp
      from 1(2)[OF False True this]
      have "2 powi expo (x * 2) \<le> x * 2" "x * 2 < 2 powi (expo (x * 2) + 1)" by simp_all
      then show ?thesis unfolding e by (simp add: power_int_add power_int_diff field_simps)
    next
      case b: False
      have e: "expo x = 0" by (subst expo.simps) (use False b in auto)
      show ?thesis using False b 1(3) unfolding e by simp
    qed
  qed
qed

lemma round_half_even_of_int: "round_half_even (of_int m) = m"
  by (simp add: round_half_even_def)

lemma round64_of_int:
  assumes "\<bar>n\<bar> < 2 ^ 53"
  shows "round64 (of_int n) = of_int n"
proof (cases "n = 0")
  case True
  then show ?thesis by (simp add: round64_def round_half_even_def Let_def)
next
  case False
  define k where "k = expo \<bar>real_of_int n\<bar>"
  have pos: "0 < \<bar>real_of_int n\<bar>" using False by simp
  from expo_bounds[OF pos]
  have lo: "2 powi k \<le> \<bar>real_of_int n\<bar>" and hi: "\<bar>real_of_int n\<bar> < 2 powi (k + 1)"
    by (simp_all add: k_def)
  have "1 \<le> \<bar>n\<bar>" using False by linarith
  then have "real_of_int 1 \<le> real_of_int \<bar>n\<bar>" by (simp only: of_int_le_iff)
  then have "1 \<le> \<bar>real_of_int n\<bar>" by simp
  with hi have "(2::real) powi 0 < 2 powi (k + 1)" by simp
  have k0: "0 \<le> k"
  proof (rule ccontr)
    assume "\<not> 0 \<le> k"
    then have "k + 1 \<le> 0" by simp
    then have "(2::real) powi (k + 1) \<le> 2 powi 0" by (intro power_int_increasing) simp_all
    with \<open>(2::real) powi 0 < 2 powi (k + 1)\<close> show False by simp
  qed
  have "real_of_int \<bar>n\<bar> < real_of_int (2 ^ 53)" using assms by (simp only: of_int_less_iff)
  then have "\<bar>real_of_int n\<bar> < 2 powi 53" by simp
  with lo have "(2::real) powi k < 2 powi 53" by linarith
  then have "k < 53" by (rule power_int_le_imp_less_exp[rotated]) simp_all
  then have k52: "k \<le> 52" by simp
  have e: "max (k - 52) (- 1074) = k - 52" using k0 by simp
  have q: "(2::real) powi (k - 52) = 1 / 2 ^ nat (52 - k)"
    using k52 by (simp add: power_int_def field_simps) 
  have "real_of_int n / 2 powi (k - 52) = of_int (n * 2 ^ nat (52 - k))"
    by (simp add: q)
  then show ?thesis
    unfolding round64_def Let_def k_def[symmetric] e
    by (simp only: round_half_even_of_int) (simp add: q)
qed
lemma round64_numeral:
  "round64 0 = 0"
  "round64 1 = 1"
  "(numeral k :: int) < 2 ^ 53 \<Longrightarrow> round64 (numeral k) = numeral k"
  "(numeral k :: int) < 2 ^ 53 \<Longrightarrow> round64 (- numeral k) = - numeral k"
  "round64 (- 1) = - 1"
  using round64_of_int[of 0] round64_of_int[of 1] round64_of_int[of "numeral k"]
    round64_of_int[of "- numeral k"] round64_of_int[of "- 1"]
  by simp_all

lemma powers_of_two:
  "(2::int) ^ 50 = 1125899906842624"
  "(2::int) ^ 51 = 2251799813685248"
  "(2::int) ^ 53 = 9007199254740992"
  by simp_all

lemma fadd_of_int:
  "\<bar>a + b\<bar> < 2 ^ 53 \<Longrightarrow> fadd (of_int a) (of_int b) = of_int (a + b)"
  using round64_of_int[of "a + b"] by (simp add: fadd_def)

lemma fsub_of_int:
  "\<bar>a - b\<bar> < 2 ^ 53 \<Longrightarrow> fsub (of_int a) (of_int b) = of_int (a - b)"
  using round64_of_int[of "a - b"] by (simp add: fsub_def)

section \<open>Unfolding the model\<close>

text \<open>
  For evaluation, rounding is unfolded on literals only (on a term with a variable the
  equation of \<open>expo\<close> could be unfolded without end), and small integers are known to
  be their own roundings.
\<close>

lemmas expo_literal =
  expo.simps [of 0] expo.simps [of 1] expo.simps [of "numeral k"]
  expo.simps [of "numeral a / numeral b"] expo.simps [of "1 / numeral b"] for k a b

lemmas round64_literal =
  round64_def [of 0] round64_def [of 1] round64_def [of "numeral k"]
  round64_def [of "- numeral k"] round64_def [of "- 1"]
  round64_def [of "numeral a / numeral b"] round64_def [of "- (numeral a / numeral b)"]
  round64_def [of "1 / numeral b"] round64_def [of "- (1 / numeral b)"] for k a b

lemmas round_half_even_literal =
  round_half_even_def [of 0] round_half_even_def [of 1] round_half_even_def [of "numeral k"]
  round_half_even_def [of "- numeral k"] round_half_even_def [of "- 1"]
  round_half_even_def [of "numeral a / numeral b"]
  round_half_even_def [of "- (numeral a / numeral b)"]
  round_half_even_def [of "1 / numeral b"] round_half_even_def [of "- (1 / numeral b)"] for k a b

lemmas number_eval =
  expo_literal round64_literal round_half_even_literal fadd_def fsub_def Let_def

lemmas number_defs = fadd_def fsub_def round64_numeral

lemmas geometry_defs =
  rect_left_def rect_right_def rect_top_def rect_bottom_def box_of_rect_def zero_margins_def
  constructBoxWindow_def getMargins_def getMargins_2io_def number_defs

lemmas host_defs =
  new_IntersectionObserver_def update_targets_def io_observe_def io_unobserve_def
  io_disconnect_def requestAnimationFrame_def cancelAnimationFrame_def live_def

lemmas controller_defs =
  PositionObserver_new_def positionObserverCallback_def unobserve_current_def
  observe_current_def disconnect_def observe_def viewportWindowDetectionCallback_def
  hasPositionChanged_def updatePosition_def cancel_positionRAF_def repeatedCheck_def
  stopConfirmationCheck_def finerWindowCallback_def finerWindowFrame_def deliver_def
  run_frame_callback_def fire_frame_def poll_tick_def outcome_state_def
  handles_ok_def poll_pending_def

lemmas controller_2io_defs =
  PositionObserver_2io_new_def observe_2io_def setupIntersectionObserverFromStart_def
  backupViewportCallback_def reportPosition_def viewportWindowDetectionCallback_2io_def
  finerWindowDetectionCallback_def

lemmas example_defs =
  example_viewport_def example_root_def example_outside_def example_bounds_def
  example_shifted_def example_moved_def example_empty_def example_window_def
  example_entry_outside_def example_entry_visible_def example_entry_shifted_def
  example_entry_gone_def example_fine_state_def example_polling_state_def

section \<open>Properties of the geometry\<close>

text \<open>
  The rounding at work on the best known example: the binary64 values of 0.1 and 0.2,
  and their sum, which is the value printed as 0.30000000000000004 and lies above 0.3.
\<close>

lemma round64_examples:
  "round64 (1 / 10) = 3602879701896397 / 2 ^ 55"
  "round64 (2 / 10) = 3602879701896397 / 2 ^ 54"
  "fadd (round64 (1 / 10)) (round64 (2 / 10)) = 1351079888211149 / 2 ^ 52"
  "3 / 10 < fadd (round64 (1 / 10)) (round64 (2 / 10))"
  by (simp_all add: number_eval)

text \<open>
  Where the sum that gives an edge is exact, the edges span the size; and rectangles of
  whole numbers up to \<open>2 ^ 50\<close> in magnitude are computed without any rounding.
\<close>

lemma rect_edges_span:
  "fadd (rect_x r) (rect_width r) = rect_x r + rect_width r \<Longrightarrow>
   rect_width r \<le> rect_right r - rect_left r"
  "fadd (rect_y r) (rect_height r) = rect_y r + rect_height r \<Longrightarrow>
   rect_height r \<le> rect_bottom r - rect_top r"
  by (simp_all add: rect_left_def rect_right_def rect_top_def rect_bottom_def min_def max_def)

lemma int_rect_edges:
  assumes "\<bar>a\<bar> \<le> 2 ^ 50" "\<bar>w\<bar> \<le> 2 ^ 50" "\<bar>b\<bar> \<le> 2 ^ 50" "\<bar>h\<bar> \<le> 2 ^ 50"
  shows "rect_left (int_rect a b w h) = of_int (min a (a + w))"
    and "rect_right (int_rect a b w h) = of_int (max a (a + w))"
    and "rect_top (int_rect a b w h) = of_int (min b (b + h))"
    and "rect_bottom (int_rect a b w h) = of_int (max b (b + h))"
    and "rect_width (int_rect a b w h) = of_int w"
    and "rect_height (int_rect a b w h) = of_int h"
proof -
  have x: "fadd (of_int a) (of_int w) = of_int (a + w)"
    using assms by (intro fadd_of_int) simp
  have y: "fadd (of_int b) (of_int h) = of_int (b + h)"
    using assms by (intro fadd_of_int) simp
  show "rect_left (int_rect a b w h) = of_int (min a (a + w))"
    "rect_right (int_rect a b w h) = of_int (max a (a + w))"
    "rect_top (int_rect a b w h) = of_int (min b (b + h))"
    "rect_bottom (int_rect a b w h) = of_int (max b (b + h))"
    "rect_width (int_rect a b w h) = of_int w"
    "rect_height (int_rect a b w h) = of_int h"
    by (simp_all add: int_rect_def rect_left_def rect_right_def rect_top_def rect_bottom_def x y
        del: of_int_add)
qed

lemma constrained_of_int:
  fixes rl tl rr tw :: int
  assumes "\<bar>rl\<bar> \<le> 2 ^ 51" "\<bar>tl\<bar> \<le> 2 ^ 51" "\<bar>rr\<bar> \<le> 2 ^ 51" "\<bar>tw\<bar> \<le> 2 ^ 50"
  shows "min (max (real_of_int rl) (of_int tl)) (fsub (of_int rr) (of_int tw))
           = of_int (min (max rl tl) (rr - tw))"
    and "fadd (of_int (min (max rl tl) (rr - tw))) (of_int tw)
           = of_int (min (max rl tl) (rr - tw)) + of_int tw"
proof -
  have s: "fsub (of_int rr) (of_int tw) = of_int (rr - tw)"
    using assms by (intro fsub_of_int) simp
  show "min (max (real_of_int rl) (of_int tl)) (fsub (of_int rr) (of_int tw))
           = of_int (min (max rl tl) (rr - tw))"
    by (simp add: s del: of_int_diff)
  have "\<bar>min (max rl tl) (rr - tw) + tw\<bar> < 2 ^ 53"
    using assms unfolding powers_of_two by linarith
  then show "fadd (of_int (min (max rl tl) (rr - tw))) (of_int tw)
           = of_int (min (max rl tl) (rr - tw)) + of_int tw"
    using fadd_of_int[of "min (max rl tl) (rr - tw)" tw] by simp
qed

lemma abs_edge:
  fixes a w :: int
  assumes "\<bar>a\<bar> \<le> 2 ^ 50" "\<bar>w\<bar> \<le> 2 ^ 50"
  shows "\<bar>min a (a + w)\<bar> \<le> 2 ^ 51" and "\<bar>max a (a + w)\<bar> \<le> 2 ^ 51"
  using assms unfolding powers_of_two by linarith+

lemma constructBoxWindow_int_rect:
  assumes t: "\<bar>tx\<bar> \<le> 2 ^ 50" "\<bar>ty\<bar> \<le> 2 ^ 50" "\<bar>tw\<bar> \<le> 2 ^ 50" "\<bar>th\<bar> \<le> 2 ^ 50"
    and o: "\<bar>ox\<bar> \<le> 2 ^ 50" "\<bar>oy\<bar> \<le> 2 ^ 50" "\<bar>ow\<bar> \<le> 2 ^ 50" "\<bar>oh\<bar> \<le> 2 ^ 50"
  shows "constructBoxWindow (int_rect tx ty tw th) (int_rect ox oy ow oh) =
     \<lparr>box_left = of_int (min (max (min ox (ox + ow)) (min tx (tx + tw))) (max ox (ox + ow) - tw)),
      box_top = of_int (min (max (min oy (oy + oh)) (min ty (ty + th))) (max oy (oy + oh) - th)),
      box_right = of_int (min (max (min ox (ox + ow)) (min tx (tx + tw))) (max ox (ox + ow) - tw) + tw),
      box_bottom = of_int (min (max (min oy (oy + oh)) (min ty (ty + th))) (max oy (oy + oh) - th) + th)\<rparr>"
proof -
  note te = int_rect_edges[OF t(1) t(3) t(2) t(4)]
  note oe = int_rect_edges[OF o(1) o(3) o(2) o(4)]
  note b = abs_edge(1)[OF o(1) o(3)] abs_edge(1)[OF t(1) t(3)] abs_edge(2)[OF o(1) o(3)]
    abs_edge(1)[OF o(2) o(4)] abs_edge(1)[OF t(2) t(4)] abs_edge(2)[OF o(2) o(4)]
  note h = constrained_of_int[OF b(1) b(2) b(3) t(3)]
  note v = constrained_of_int[OF b(4) b(5) b(6) t(4)]
  show ?thesis
    unfolding constructBoxWindow_def Let_def te oe h v by simp
qed

lemma constructBoxWindow_sides:
  "box_right (constructBoxWindow t outer) =
     fadd (box_left (constructBoxWindow t outer)) (rect_width t)"
  "box_bottom (constructBoxWindow t outer) =
     fadd (box_top (constructBoxWindow t outer)) (rect_height t)"
  by (simp_all add: constructBoxWindow_def Let_def)

lemma constructBoxWindow_inside:
  assumes r: "fadd (box_left (constructBoxWindow t outer)) (rect_width t)
             = box_left (constructBoxWindow t outer) + rect_width t"
    and b: "fadd (box_top (constructBoxWindow t outer)) (rect_height t)
             = box_top (constructBoxWindow t outer) + rect_height t"
    and l: "fsub (rect_right outer) (rect_width t) = rect_right outer - rect_width t"
    and u: "fsub (rect_bottom outer) (rect_height t) = rect_bottom outer - rect_height t"
    and ow: "fadd (rect_x outer) (rect_width outer) = rect_x outer + rect_width outer"
    and oh: "fadd (rect_y outer) (rect_height outer) = rect_y outer + rect_height outer"
    and w: "rect_width t \<le> rect_width outer"
    and h: "rect_height t \<le> rect_height outer"
  shows "rect_left outer \<le> box_left (constructBoxWindow t outer)
      \<and> rect_top outer \<le> box_top (constructBoxWindow t outer)
      \<and> box_right (constructBoxWindow t outer) \<le> rect_right outer
      \<and> box_bottom (constructBoxWindow t outer) \<le> rect_bottom outer"
proof -
  have cl: "box_left (constructBoxWindow t outer) =
      min (max (rect_left outer) (rect_left t)) (rect_right outer - rect_width t)"
    by (simp add: constructBoxWindow_def Let_def l)
  have ct: "box_top (constructBoxWindow t outer) =
      min (max (rect_top outer) (rect_top t)) (rect_bottom outer - rect_height t)"
    by (simp add: constructBoxWindow_def Let_def u)
  have cr: "box_right (constructBoxWindow t outer) =
      box_left (constructBoxWindow t outer) + rect_width t"
    using constructBoxWindow_sides(1)[of t outer] r by simp
  have cb: "box_bottom (constructBoxWindow t outer) =
      box_top (constructBoxWindow t outer) + rect_height t"
    using constructBoxWindow_sides(2)[of t outer] b by simp
  show ?thesis
    using rect_edges_span(1)[OF ow] rect_edges_span(2)[OF oh] w h
    unfolding cr cb unfolding cl ct by auto
qed

lemma clamp_inside:
  fixes ox ow tw tl :: int
  assumes "tw \<le> ow"
  shows "min ox (ox + ow) \<le> min (max (min ox (ox + ow)) tl) (max ox (ox + ow) - tw)"
    and "min (max (min ox (ox + ow)) tl) (max ox (ox + ow) - tw) + tw \<le> max ox (ox + ow)"
  using assms by linarith+

text \<open>
  Claim C4, as amended.  The right and the bottom of the window built by
  \<open>constructBoxWindow\<close> are the binary64 sums of its left and the target's width and of
  its top and the target's height.  Where such a sum is exact, the window has exactly
  the target's width, or height.  Where moreover the differences of the outer
  rectangle's right and the target's width and of its bottom and the target's height are
  exact, the outer rectangle's right and bottom are the exact sums of its origin and its
  size, and the target is no wider and no taller than the outer rectangle, all four
  edges of the window lie inside the outer rectangle.  All of this is the case for
  rectangles whose origin and size are whole numbers of magnitude at most \<open>2 ^ 50\<close>:
  for them the window has exactly the target's size, and lies inside the outer rectangle
  when the target is no wider and no taller than it.
\<close>

theorem constructBoxWindow_fits:
  "box_right (constructBoxWindow t outer) =
     fadd (box_left (constructBoxWindow t outer)) (rect_width t)
   \<and> box_bottom (constructBoxWindow t outer) =
     fadd (box_top (constructBoxWindow t outer)) (rect_height t)
   \<and> (fadd (box_left (constructBoxWindow t outer)) (rect_width t)
         = box_left (constructBoxWindow t outer) + rect_width t \<longrightarrow>
       box_right (constructBoxWindow t outer) - box_left (constructBoxWindow t outer)
         = rect_width t)
   \<and> (fadd (box_top (constructBoxWindow t outer)) (rect_height t)
         = box_top (constructBoxWindow t outer) + rect_height t \<longrightarrow>
       box_bottom (constructBoxWindow t outer) - box_top (constructBoxWindow t outer)
         = rect_height t)
   \<and> (fadd (box_left (constructBoxWindow t outer)) (rect_width t)
         = box_left (constructBoxWindow t outer) + rect_width t
      \<and> fadd (box_top (constructBoxWindow t outer)) (rect_height t)
         = box_top (constructBoxWindow t outer) + rect_height t
      \<and> fsub (rect_right outer) (rect_width t) = rect_right outer - rect_width t
      \<and> fsub (rect_bottom outer) (rect_height t) = rect_bottom outer - rect_height t
      \<and> fadd (rect_x outer) (rect_width outer) = rect_x outer + rect_width outer
      \<and> fadd (rect_y outer) (rect_height outer) = rect_y outer + rect_height outer
      \<and> rect_width t \<le> rect_width outer \<and> rect_height t \<le> rect_height outer \<longrightarrow>
        rect_left outer \<le> box_left (constructBoxWindow t outer)
      \<and> rect_top outer \<le> box_top (constructBoxWindow t outer)
      \<and> box_right (constructBoxWindow t outer) \<le> rect_right outer
      \<and> box_bottom (constructBoxWindow t outer) \<le> rect_bottom outer)
   \<and> (\<bar>tx\<bar> \<le> 2 ^ 50 \<and> \<bar>ty\<bar> \<le> 2 ^ 50 \<and> \<bar>tw\<bar> \<le> 2 ^ 50 \<and> \<bar>th\<bar> \<le> 2 ^ 50
      \<and> \<bar>ox\<bar> \<le> 2 ^ 50 \<and> \<bar>oy\<bar> \<le> 2 ^ 50 \<and> \<bar>ow\<bar> \<le> 2 ^ 50 \<and> \<bar>oh\<bar> \<le> 2 ^ 50 \<longrightarrow>
        box_right (constructBoxWindow (int_rect tx ty tw th) (int_rect ox oy ow oh))
          - box_left (constructBoxWindow (int_rect tx ty tw th) (int_rect ox oy ow oh))
          = of_int tw
      \<and> box_bottom (constructBoxWindow (int_rect tx ty tw th) (int_rect ox oy ow oh))
          - box_top (constructBoxWindow (int_rect tx ty tw th) (int_rect ox oy ow oh))
          = of_int th
      \<and> (tw \<le> ow \<and> th \<le> oh \<longrightarrow>
            rect_left (int_rect ox oy ow oh)
              \<le> box_left (constructBoxWindow (int_rect tx ty tw th) (int_rect ox oy ow oh))
          \<and> rect_top (int_rect ox oy ow oh)
              \<le> box_top (constructBoxWindow (int_rect tx ty tw th) (int_rect ox oy ow oh))
          \<and> box_right (constructBoxWindow (int_rect tx ty tw th) (int_rect ox oy ow oh))
              \<le> rect_right (int_rect ox oy ow oh)
          \<and> box_bottom (constructBoxWindow (int_rect tx ty tw th) (int_rect ox oy ow oh))
              \<le> rect_bottom (int_rect ox oy ow oh)))"
proof -
  have size:
    "box_right (constructBoxWindow t outer) - box_left (constructBoxWindow t outer)
       = rect_width t"
    if "fadd (box_left (constructBoxWindow t outer)) (rect_width t)
         = box_left (constructBoxWindow t outer) + rect_width t"
    using that constructBoxWindow_sides(1)[of t outer] by simp
  have size': 
    "box_bottom (constructBoxWindow t outer) - box_top (constructBoxWindow t outer)
       = rect_height t"
    if "fadd (box_top (constructBoxWindow t outer)) (rect_height t)
         = box_top (constructBoxWindow t outer) + rect_height t"
    using that constructBoxWindow_sides(2)[of t outer] by simp
  have ints:
    "box_right (constructBoxWindow (int_rect tx ty tw th) (int_rect ox oy ow oh))
          - box_left (constructBoxWindow (int_rect tx ty tw th) (int_rect ox oy ow oh))
          = of_int tw
      \<and> box_bottom (constructBoxWindow (int_rect tx ty tw th) (int_rect ox oy ow oh))
          - box_top (constructBoxWindow (int_rect tx ty tw th) (int_rect ox oy ow oh))
          = of_int th
      \<and> (tw \<le> ow \<and> th \<le> oh \<longrightarrow>
            rect_left (int_rect ox oy ow oh)
              \<le> box_left (constructBoxWindow (int_rect tx ty tw th) (int_rect ox oy ow oh))
          \<and> rect_top (int_rect ox oy ow oh)
              \<le> box_top (constructBoxWindow (int_rect tx ty tw th) (int_rect ox oy ow oh))
          \<and> box_right (constructBoxWindow (int_rect tx ty tw th) (int_rect ox oy ow oh))
              \<le> rect_right (int_rect ox oy ow oh)
          \<and> box_bottom (constructBoxWindow (int_rect tx ty tw th) (int_rect ox oy ow oh))
              \<le> rect_bottom (int_rect ox oy ow oh))"
    if t: "\<bar>tx\<bar> \<le> 2 ^ 50" "\<bar>ty\<bar> \<le> 2 ^ 50" "\<bar>tw\<bar> \<le> 2 ^ 50" "\<bar>th\<bar> \<le> 2 ^ 50"
      and o: "\<bar>ox\<bar> \<le> 2 ^ 50" "\<bar>oy\<bar> \<le> 2 ^ 50" "\<bar>ow\<bar> \<le> 2 ^ 50" "\<bar>oh\<bar> \<le> 2 ^ 50"
  proof -
    note w = constructBoxWindow_int_rect[OF t o]
    note oe = int_rect_edges[OF o(1) o(3) o(2) o(4)]
    show ?thesis
      unfolding w oe
      using clamp_inside[of tw ow ox "min tx (tx + tw)"]
        clamp_inside[of th oh oy "min ty (ty + th)"]
      by (simp del: of_int_add of_int_diff add: of_int_le_iff)
  qed
  have p3: "fadd (box_left (constructBoxWindow t outer)) (rect_width t)
         = box_left (constructBoxWindow t outer) + rect_width t \<longrightarrow>
       box_right (constructBoxWindow t outer) - box_left (constructBoxWindow t outer)
         = rect_width t"
    using size by blast
  have p4: "fadd (box_top (constructBoxWindow t outer)) (rect_height t)
         = box_top (constructBoxWindow t outer) + rect_height t \<longrightarrow>
       box_bottom (constructBoxWindow t outer) - box_top (constructBoxWindow t outer)
         = rect_height t"
    using size' by blast
  have p5: "fadd (box_left (constructBoxWindow t outer)) (rect_width t)
         = box_left (constructBoxWindow t outer) + rect_width t
      \<and> fadd (box_top (constructBoxWindow t outer)) (rect_height t)
         = box_top (constructBoxWindow t outer) + rect_height t
      \<and> fsub (rect_right outer) (rect_width t) = rect_right outer - rect_width t
      \<and> fsub (rect_bottom outer) (rect_height t) = rect_bottom outer - rect_height t
      \<and> fadd (rect_x outer) (rect_width outer) = rect_x outer + rect_width outer
      \<and> fadd (rect_y outer) (rect_height outer) = rect_y outer + rect_height outer
      \<and> rect_width t \<le> rect_width outer \<and> rect_height t \<le> rect_height outer \<longrightarrow>
        rect_left outer \<le> box_left (constructBoxWindow t outer)
      \<and> rect_top outer \<le> box_top (constructBoxWindow t outer)
      \<and> box_right (constructBoxWindow t outer) \<le> rect_right outer
      \<and> box_bottom (constructBoxWindow t outer) \<le> rect_bottom outer"
    using constructBoxWindow_inside[of t outer] by blast
  have p6: "\<bar>tx\<bar> \<le> 2 ^ 50 \<and> \<bar>ty\<bar> \<le> 2 ^ 50 \<and> \<bar>tw\<bar> \<le> 2 ^ 50 \<and> \<bar>th\<bar> \<le> 2 ^ 50
      \<and> \<bar>ox\<bar> \<le> 2 ^ 50 \<and> \<bar>oy\<bar> \<le> 2 ^ 50 \<and> \<bar>ow\<bar> \<le> 2 ^ 50 \<and> \<bar>oh\<bar> \<le> 2 ^ 50 \<longrightarrow>
        box_right (constructBoxWindow (int_rect tx ty tw th) (int_rect ox oy ow oh))
          - box_left (constructBoxWindow (int_rect tx ty tw th) (int_rect ox oy ow oh))
          = of_int tw
      \<and> box_bottom (constructBoxWindow (int_rect tx ty tw th) (int_rect ox oy ow oh))
          - box_top (constructBoxWindow (int_rect tx ty tw th) (int_rect ox oy ow oh))
          = of_int th
      \<and> (tw \<le> ow \<and> th \<le> oh \<longrightarrow>
            rect_left (int_rect ox oy ow oh)
              \<le> box_left (constructBoxWindow (int_rect tx ty tw th) (int_rect ox oy ow oh))
          \<and> rect_top (int_rect ox oy ow oh)
              \<le> box_top (constructBoxWindow (int_rect tx ty tw th) (int_rect ox oy ow oh))
          \<and> box_right (constructBoxWindow (int_rect tx ty tw th) (int_rect ox oy ow oh))
              \<le> rect_right (int_rect ox oy ow oh)
          \<and> box_bottom (constructBoxWindow (int_rect tx ty tw th) (int_rect ox oy ow oh))
              \<le> rect_bottom (int_rect ox oy ow oh))"
    using ints by blast
  show ?thesis
    by (rule conjI[OF constructBoxWindow_sides(1) conjI[OF constructBoxWindow_sides(2)
          conjI[OF p3 conjI[OF p4 conjI[OF p5 p6]]]]])
qed

text \<open>
  A target of 20 by 10 that sticks out of an outer rectangle of 100 by 50 at the right
  and at the top: every sum and difference is exact, and the window is moved inside.
\<close>

theorem constructBoxWindow_fits_witness:
  "constructBoxWindow (int_rect 90 (- 5) 20 10) (int_rect 0 0 100 50)
     = \<lparr>box_left = 80, box_top = 0, box_right = 100, box_bottom = 10\<rparr>
   \<and> fadd 80 20 = 80 + 20 \<and> fadd 0 10 = 0 + 10
   \<and> fsub 100 20 = 100 - 20 \<and> fsub 50 10 = 50 - 10
   \<and> fadd 0 100 = 0 + 100 \<and> fadd 0 50 = 0 + 50
   \<and> (20::real) \<le> 100 \<and> (10::real) \<le> 50
   \<and> \<bar>90::int\<bar> \<le> 2 ^ 50 \<and> \<bar>- 5::int\<bar> \<le> 2 ^ 50 \<and> \<bar>20::int\<bar> \<le> 2 ^ 50
   \<and> \<bar>10::int\<bar> \<le> 2 ^ 50 \<and> \<bar>0::int\<bar> \<le> 2 ^ 50 \<and> \<bar>100::int\<bar> \<le> 2 ^ 50
   \<and> \<bar>50::int\<bar> \<le> 2 ^ 50 \<and> (20::int) \<le> 100 \<and> (10::int) \<le> 50"
  using constructBoxWindow_fits
    [where t = "int_rect 90 (- 5) 20 10" and outer = "int_rect 0 0 100 50"
       and tx = 90 and ty = "- 5" and tw = 20 and th = 10
       and ox = 0 and oy = 0 and ow = 100 and oh = 50]
  by (simp add: geometry_defs int_rect_def Let_def)

text \<open>
  Claim C4 as stated fails, in both halves, on rectangles whose numbers are not sums of
  few powers of two.  The numbers below are the binary64 values nearest to the decimal
  fractions written.  For a target of width 0.2 at \<open>x = 0.1\<close> the window's right minus
  its left is not the target's width, whether the difference is taken exactly or in
  binary64.  And a target of 129.66 by 97.59, which is smaller than the outer rectangle
  of 988.7 by 383.2, gets a window whose bottom lies below the outer bottom.
\<close>

theorem constructBoxWindow_rounding_counterexample:
  "box_right (constructBoxWindow
       \<lparr>rect_x = round64 (1 / 10), rect_y = round64 (7 / 10),
        rect_width = round64 (2 / 10), rect_height = round64 (1 / 10)\<rparr>
       \<lparr>rect_x = 0, rect_y = 0, rect_width = 100, rect_height = 100\<rparr>)
     - box_left (constructBoxWindow
       \<lparr>rect_x = round64 (1 / 10), rect_y = round64 (7 / 10),
        rect_width = round64 (2 / 10), rect_height = round64 (1 / 10)\<rparr>
       \<lparr>rect_x = 0, rect_y = 0, rect_width = 100, rect_height = 100\<rparr>)
     \<noteq> round64 (2 / 10)
   \<and> fsub (box_right (constructBoxWindow
       \<lparr>rect_x = round64 (1 / 10), rect_y = round64 (7 / 10),
        rect_width = round64 (2 / 10), rect_height = round64 (1 / 10)\<rparr>
       \<lparr>rect_x = 0, rect_y = 0, rect_width = 100, rect_height = 100\<rparr>))
      (box_left (constructBoxWindow
       \<lparr>rect_x = round64 (1 / 10), rect_y = round64 (7 / 10),
        rect_width = round64 (2 / 10), rect_height = round64 (1 / 10)\<rparr>
       \<lparr>rect_x = 0, rect_y = 0, rect_width = 100, rect_height = 100\<rparr>))
     \<noteq> round64 (2 / 10)
   \<and> round64 (12966 / 100) \<le> round64 (9887 / 10)
   \<and> round64 (9759 / 100) \<le> round64 (3832 / 10)
   \<and> rect_bottom \<lparr>rect_x = 0, rect_y = 0, rect_width = round64 (9887 / 10),
                    rect_height = round64 (3832 / 10)\<rparr>
       < box_bottom (constructBoxWindow
           \<lparr>rect_x = round64 (13358 / 100), rect_y = round64 (36755 / 100),
            rect_width = round64 (12966 / 100), rect_height = round64 (9759 / 100)\<rparr>
           \<lparr>rect_x = 0, rect_y = 0, rect_width = round64 (9887 / 10),
            rect_height = round64 (3832 / 10)\<rparr>)"
  by (simp add: constructBoxWindow_def rect_left_def rect_right_def rect_top_def rect_bottom_def
      number_eval)



section \<open>Properties of the host operations\<close>

lemma length_update_targets: "length (update_targets i f obs) = length obs"
  by (simp add: update_targets_def)

lemma nth_update_targets_same:
  "i < length obs \<Longrightarrow> io_targets (update_targets i f obs ! i) = f (io_targets (obs ! i))"
  by (simp add: update_targets_def)

lemma update_targets_twice:
  "update_targets i f (update_targets i g obs) = update_targets i (\<lambda>ts. f (g ts)) obs"
  by (simp add: update_targets_def)

lemma io_disconnect_idem: "io_disconnect i (io_disconnect i obs) = io_disconnect i obs"
  by (simp add: io_disconnect_def update_targets_twice)

lemma observers_observe:
  "observers (observe t s) =
     observers s @ [\<lparr>io_callback = ViewportWindowDetectionCallback, io_root = DocumentRoot,
                     io_rootMargin = zero_margins, io_targets = [t]\<rparr>]"
  by (simp add: observe_def new_IntersectionObserver_def io_observe_def update_targets_def Let_def)

lemma observe_fields:
  "intersectionObserver (observe t s) = Some (length (observers s))"
  "target (observe t s) = Some t"
  "frames (observe t s) = frames s"
  "reports (observe t s) = reports s"
  "previousPositionInfo (observe t s) = previousPositionInfo s"
  "positionRAF (observe t s) = positionRAF s"
  "nextHandle (observe t s) = nextHandle s"
  "timeToWaitTillStopConfirmed (observe t s) = timeToWaitTillStopConfirmed s"
  by (simp_all add: observe_def new_IntersectionObserver_def Let_def)

lemma teardown_current:
  "intersectionObserver s = Some i \<Longrightarrow> i < length (observers s) \<Longrightarrow>
   observers (disconnect (unobserve_current t s)) = (observers s)[i := (observers s ! i)\<lparr>io_targets := []\<rparr>]"
  by (simp add: disconnect_def unobserve_current_def io_disconnect_def io_unobserve_def
      update_targets_def)

lemma teardown_current_fields:
  "intersectionObserver (disconnect (unobserve_current t s)) = intersectionObserver s"
  "target (disconnect (unobserve_current t s)) = target s"
  "frames (disconnect (unobserve_current t s)) = frames s"
  "reports (disconnect (unobserve_current t s)) = reports s"
  "previousPositionInfo (disconnect (unobserve_current t s)) = previousPositionInfo s"
  "positionRAF (disconnect (unobserve_current t s)) = positionRAF s"
  "nextHandle (disconnect (unobserve_current t s)) = nextHandle s"
  "waitTime (disconnect (unobserve_current t s)) = waitTime s"
  by (simp_all add: disconnect_def unobserve_current_def split: option.splits)

lemma disconnect_idem: "disconnect (disconnect s) = disconnect s"
  by (simp add: disconnect_def io_disconnect_idem split: option.splits)

lemma disconnect_fields:
  "reports (disconnect s) = reports s"
  "frames (disconnect s) = frames s"
  "intersectionObserver (disconnect s) = intersectionObserver s"
  "positionRAF (disconnect s) = positionRAF s"
  "previousPositionInfo (disconnect s) = previousPositionInfo s"
  by (simp_all add: disconnect_def split: option.splits)

lemma fresh_handle:
  "handles_ok s \<Longrightarrow> map_of (frames s) (nextHandle s) = None"
  "handles_ok s \<Longrightarrow> filter (\<lambda>p. fst p \<noteq> nextHandle s) (frames s) = frames s"
proof -
  assume h: "handles_ok s"
  then have all: "\<forall>p \<in> set (frames s). fst p < nextHandle s"
    by (simp add: handles_ok_def list_all_iff)
  then have "nextHandle s \<notin> fst ` set (frames s)" by auto
  then show "map_of (frames s) (nextHandle s) = None" by (simp add: map_of_eq_None_iff)
  from all show "filter (\<lambda>p. fst p \<noteq> nextHandle s) (frames s) = frames s"
    by (intro filter_True) auto
qed

lemma fire_requested_frame:
  assumes "handles_ok s"
  shows "fire_frame g (nextHandle s) (snd (requestAnimationFrame cb s)) =
           run_frame_callback g cb (s\<lparr>nextHandle := nextHandle s + 1\<rparr>)"
  using fresh_handle[OF assms]
  by (simp add: fire_frame_def requestAnimationFrame_def cancelAnimationFrame_def map_add_def)

lemma handles_ok_filter_append:
  assumes "handles_ok s"
  shows "map_of (filter (\<lambda>p. fst p \<noteq> h) (frames s) @ [(nextHandle s, cb)]) (nextHandle s) = Some cb"
    and "list_all (\<lambda>p. fst p < Suc (nextHandle s))
           (filter (\<lambda>p. fst p \<noteq> h) (frames s) @ [(nextHandle s, cb)])"
    and "filter (\<lambda>p. fst p \<noteq> nextHandle s)
           (filter (\<lambda>p. fst p \<noteq> h) (frames s) @ [(nextHandle s, cb)])
         = filter (\<lambda>p. fst p \<noteq> h) (frames s)"
proof -
  from assms have all: "\<forall>p \<in> set (frames s). fst p < nextHandle s"
    by (simp add: handles_ok_def list_all_iff)
  then have "nextHandle s \<notin> fst ` set (filter (\<lambda>p. fst p \<noteq> h) (frames s))" by auto
  then have "map_of (filter (\<lambda>p. fst p \<noteq> h) (frames s)) (nextHandle s) = None"
    by (simp add: map_of_eq_None_iff)
  then show "map_of (filter (\<lambda>p. fst p \<noteq> h) (frames s) @ [(nextHandle s, cb)]) (nextHandle s) = Some cb"
    by (simp add: map_add_def)
  from all show "list_all (\<lambda>p. fst p < Suc (nextHandle s))
           (filter (\<lambda>p. fst p \<noteq> h) (frames s) @ [(nextHandle s, cb)])"
    by (auto simp add: list_all_iff)
  from all have "filter (\<lambda>p. fst p \<noteq> nextHandle s) (filter (\<lambda>p. fst p \<noteq> h) (frames s))
      = filter (\<lambda>p. fst p \<noteq> h) (frames s)"
    by (intro filter_True) auto
  then show "filter (\<lambda>p. fst p \<noteq> nextHandle s)
           (filter (\<lambda>p. fst p \<noteq> h) (frames s) @ [(nextHandle s, cb)])
         = filter (\<lambda>p. fst p \<noteq> h) (frames s)"
    by simp
qed

section \<open>Reachable states\<close>

text \<open>
  Both properties hold of a new controller and are kept by every method call, delivery
  and animation frame, so they hold after every run.
\<close>

lemmas step_defs =
  controller_ok_def handles_ok_def list_all_iff Let_def
  disconnect_def unobserve_current_def observe_current_def observe_def
  io_disconnect_def io_unobserve_def io_observe_def length_update_targets
  new_IntersectionObserver_def positionObserverCallback_def updatePosition_def
  requestAnimationFrame_def cancelAnimationFrame_def cancel_positionRAF_def

lemma ok_viewport:
  "controller_ok s \<Longrightarrow>
   controller_ok (outcome_state (viewportWindowDetectionCallback vv e s))"
  by (auto simp add: step_defs viewportWindowDetectionCallback_def outcome_state_def
      split: list.splits option.splits)

lemma ok_finer:
  "controller_ok s \<Longrightarrow> controller_ok (outcome_state (finerWindowCallback e s))"
  by (auto simp add: step_defs finerWindowCallback_def outcome_state_def
      split: list.splits option.splits)

lemma ok_repeatedCheck: "controller_ok s \<Longrightarrow> controller_ok (repeatedCheck g s)"
  by (auto simp add: step_defs repeatedCheck_def split: option.splits)

lemma ok_stopConfirmationCheck: "controller_ok s \<Longrightarrow> controller_ok (stopConfirmationCheck g s)"
  by (auto simp add: step_defs stopConfirmationCheck_def split: option.splits)

lemma ok_finerWindowFrame: "controller_ok s \<Longrightarrow> controller_ok (finerWindowFrame entry s)"
  by (auto simp add: step_defs finerWindowFrame_def split: option.splits)

lemma ok_fire_frame: "controller_ok s \<Longrightarrow> controller_ok (fire_frame g h s)"
proof -
  assume ok: "controller_ok s"
  then have "controller_ok (cancelAnimationFrame h s)"
    by (auto simp add: step_defs split: option.splits)
  then show ?thesis
    by (auto simp add: fire_frame_def run_frame_callback_def ok ok_repeatedCheck
        ok_stopConfirmationCheck ok_finerWindowFrame split: option.splits frame_callback.splits)
qed

lemma ok_step: "controller_ok s \<Longrightarrow> controller_ok (outcome_state (step ev s))"
proof (cases ev)
  case (Observe t)
  assume "controller_ok s"
  then show ?thesis using Observe
    by (auto simp add: step_defs outcome_state_def split: option.splits)
next
  case Disconnect
  assume "controller_ok s"
  then show ?thesis using Disconnect
    by (auto simp add: step_defs outcome_state_def split: option.splits)
next
  case (Notify vv i e)
  assume "controller_ok s"
  then show ?thesis using Notify ok_viewport[of s vv e] ok_finer[of s e]
    by (auto simp add: deliver_def outcome_state_def split: io_callback.splits)
next
  case (Frame g h)
  assume "controller_ok s"
  then show ?thesis using Frame ok_fire_frame[of s g h]
    by (simp add: outcome_state_def)
qed

lemma ok_run: "controller_ok s \<Longrightarrow> controller_ok (run evs s)"
  by (induction evs arbitrary: s) (simp_all add: ok_step)

lemma ok_reachable: "controller_ok (run evs PositionObserver_new)"
  by (rule ok_run) (simp add: step_defs PositionObserver_new_def)

lemmas sample_defs =
  sample_before_polling_def is_poll_callback_def hasPositionChanged_def list_all_iff Let_def
  disconnect_def unobserve_current_def observe_current_def observe_def
  new_IntersectionObserver_def positionObserverCallback_def updatePosition_def
  requestAnimationFrame_def cancelAnimationFrame_def cancel_positionRAF_def

lemma sample_viewport:
  "sample_before_polling s \<Longrightarrow>
   sample_before_polling (outcome_state (viewportWindowDetectionCallback vv e s))"
  by (auto simp add: sample_defs viewportWindowDetectionCallback_def outcome_state_def
      split: list.splits option.splits)

lemma sample_finer:
  "sample_before_polling s \<Longrightarrow> sample_before_polling (outcome_state (finerWindowCallback e s))"
  by (auto simp add: sample_defs finerWindowCallback_def outcome_state_def
      split: list.splits option.splits)

lemma sample_repeatedCheck:
  "sample_before_polling s \<Longrightarrow> sample_before_polling (repeatedCheck g s)"
  by (auto simp add: sample_defs repeatedCheck_def split: option.splits)

lemma sample_stopConfirmationCheck:
  "sample_before_polling s \<Longrightarrow> sample_before_polling (stopConfirmationCheck g s)"
  by (auto simp add: sample_defs stopConfirmationCheck_def split: option.splits)

lemma sample_finerWindowFrame:
  "sample_before_polling (finerWindowFrame entry s)"
  by (auto simp add: sample_defs finerWindowFrame_def split: option.splits)

lemma sample_fire_frame:
  "sample_before_polling s \<Longrightarrow> sample_before_polling (fire_frame g h s)"
proof -
  assume ok: "sample_before_polling s"
  then have "sample_before_polling (cancelAnimationFrame h s)"
    by (auto simp add: sample_defs split: option.splits)
  then show ?thesis
    by (auto simp add: fire_frame_def run_frame_callback_def ok sample_repeatedCheck
        sample_stopConfirmationCheck sample_finerWindowFrame
        split: option.splits frame_callback.splits)
qed

lemma sample_step:
  "sample_before_polling s \<Longrightarrow> sample_before_polling (outcome_state (step ev s))"
proof (cases ev)
  case (Observe t)
  assume "sample_before_polling s"
  then show ?thesis using Observe
    by (auto simp add: sample_defs outcome_state_def split: option.splits)
next
  case Disconnect
  assume "sample_before_polling s"
  then show ?thesis using Disconnect
    by (auto simp add: sample_defs outcome_state_def split: option.splits)
next
  case (Notify vv i e)
  assume "sample_before_polling s"
  then show ?thesis using Notify sample_viewport[of s vv e] sample_finer[of s e]
    by (auto simp add: deliver_def outcome_state_def split: io_callback.splits)
next
  case (Frame g h)
  assume "sample_before_polling s"
  then show ?thesis using Frame sample_fire_frame[of s g h]
    by (simp add: outcome_state_def)
qed

lemma sample_run: "sample_before_polling s \<Longrightarrow> sample_before_polling (run evs s)"
  by (induction evs arbitrary: s) (simp_all add: sample_step)

lemma sample_reachable: "sample_before_polling (run evs PositionObserver_new)"
  by (rule sample_run) (simp add: sample_defs PositionObserver_new_def)

lemma poll_pending_has_sample:
  assumes "poll_pending t h (run evs PositionObserver_new)"
  shows "previousPositionInfo (run evs PositionObserver_new) \<noteq> None"
proof
  assume n: "previousPositionInfo (run evs PositionObserver_new) = None"
  from assms have "(h, RepeatedCheck) \<in> set (frames (run evs PositionObserver_new))"
    by (simp add: poll_pending_def map_of_SomeD)
  with n sample_reachable[of evs] show False
    by (auto simp add: sample_before_polling_def list_all_iff is_poll_callback_def)
qed

section \<open>The watchers\<close>

text \<open>
  Claim C6.  In any state, and so in the state right after \<open>observe\<close>, a notification
  whose first entry has intersection ratio 0 makes the viewport handler invoke the
  reporting callback exactly once, with \<open>outOfViewport\<close> true and the left and top of
  the entry's bounding rectangle as \<open>x\<close> and \<open>y\<close>; it throws nothing and changes
  nothing else: the same observer stays subscribed, no observer is created and no frame
  is requested.
\<close>

theorem coarse_ratio_zero_reports_once:
  "entry_intersectionRatio entry = 0 \<Longrightarrow>
   viewportWindowDetectionCallback vv (entry # rest) s =
     Inr (s\<lparr>reports := reports s @
            [\<lparr>pd_x = rect_left (entry_boundingClientRect entry),
              pd_y = rect_top (entry_boundingClientRect entry),
              pd_target = entry_target entry, pd_outOfViewport = True,
              pd_rootBounds = entry_rootBounds entry\<rparr>]\<rparr>)"
  by (simp add: viewportWindowDetectionCallback_def positionObserverCallback_def Let_def)

theorem coarse_ratio_zero_reports_once_witness:
  "entry_intersectionRatio (example_entry_outside) = 0
   \<and> run [Observe 7, Notify example_viewport 0 [example_entry_outside]] PositionObserver_new =
       (observe 7 PositionObserver_new)
         \<lparr>reports := [\<lparr>pd_x = 150, pd_y = 20, pd_target = 7, pd_outOfViewport = True,
                       pd_rootBounds = Some example_root\<rparr>]\<rparr>
   \<and> live (observers (run [Observe 7, Notify example_viewport 0 [example_entry_outside]]
                          PositionObserver_new)) = [0]"
  using coarse_ratio_zero_reports_once
    [of "example_entry_outside" example_viewport "[]" "observe 7 PositionObserver_new"]
  by (simp add: host_defs controller_defs geometry_defs example_defs Let_def)

text \<open>
  Claim C9.  Every watcher callback reads the first entry of the batch and nothing else:
  a batch behaves like the batch of its first entry alone.  This holds for the viewport
  and the fine handler of version 2 and for the three callbacks of the variant with two
  observers.
\<close>

theorem first_entry_only:
  "viewportWindowDetectionCallback vv (entry # rest) s = viewportWindowDetectionCallback vv [entry] s
   \<and> finerWindowCallback (entry # rest) s = finerWindowCallback [entry] s
   \<and> viewportWindowDetectionCallback_2io (entry # rest) s' = viewportWindowDetectionCallback_2io [entry] s'
   \<and> finerWindowDetectionCallback (entry # rest) s' = finerWindowDetectionCallback [entry] s'
   \<and> backupViewportCallback (entry # rest) s' = backupViewportCallback [entry] s'"
  by (simp add: viewportWindowDetectionCallback_def finerWindowCallback_def
      viewportWindowDetectionCallback_2io_def finerWindowDetectionCallback_def
      backupViewportCallback_def)

theorem first_entry_only_witness:
  "viewportWindowDetectionCallback example_viewport [example_entry_outside, example_entry_visible]
     (observe 7 PositionObserver_new)
   = viewportWindowDetectionCallback example_viewport [example_entry_outside]
       (observe 7 PositionObserver_new)
   \<and> reports (outcome_state
        (viewportWindowDetectionCallback example_viewport [example_entry_outside, example_entry_visible]
           (observe 7 PositionObserver_new)))
     = [\<lparr>pd_x = 150, pd_y = 20, pd_target = 7, pd_outOfViewport = True,
         pd_rootBounds = Some example_root\<rparr>]"
  using first_entry_only
    [of example_viewport "example_entry_outside" "[example_entry_visible]" "observe 7 PositionObserver_new"]
  by (simp add: host_defs controller_defs geometry_defs example_defs Let_def)

text \<open>
  What the deferred body of the fine handler does at ratio 0, and what the viewport
  handler does at a positive ratio.
\<close>

lemma finerWindowFrame_ratio_zero:
  assumes "entry_intersectionRatio entry = 0"
  shows "finerWindowFrame entry s =
     observe (entry_target entry) (disconnect (unobserve_current (entry_target entry)
       (if hasPositionChanged (entry_boundingClientRect entry) s
        then positionObserverCallback
               \<lparr>pd_x = rect_left (entry_boundingClientRect entry),
                pd_y = rect_top (entry_boundingClientRect entry),
                pd_target = entry_target entry, pd_outOfViewport = False,
                pd_rootBounds = entry_rootBounds entry\<rparr>
               (updatePosition (entry_boundingClientRect entry) (s\<lparr>stopped := False\<rparr>))
        else s)))"
  using assms by (simp add: finerWindowFrame_def Let_def)

lemma finerWindowFrame_zero_effect:
  assumes "entry_intersectionRatio entry = 0"
    and "intersectionObserver s = Some i"
    and "i < length (observers s)"
  shows "observers (finerWindowFrame entry s) =
           (observers s)[i := (observers s ! i)\<lparr>io_targets := []\<rparr>] @
           [\<lparr>io_callback = ViewportWindowDetectionCallback, io_root = DocumentRoot,
             io_rootMargin = zero_margins, io_targets = [entry_target entry]\<rparr>]"
    and "intersectionObserver (finerWindowFrame entry s) = Some (length (observers s))"
    and "target (finerWindowFrame entry s) = Some (entry_target entry)"
    and "frames (finerWindowFrame entry s) = frames s"
    and "positionRAF (finerWindowFrame entry s) = positionRAF s"
proof -
  define s1 where "s1 = (if hasPositionChanged (entry_boundingClientRect entry) s
        then positionObserverCallback
               \<lparr>pd_x = rect_left (entry_boundingClientRect entry),
                pd_y = rect_top (entry_boundingClientRect entry),
                pd_target = entry_target entry, pd_outOfViewport = False,
                pd_rootBounds = entry_rootBounds entry\<rparr>
               (updatePosition (entry_boundingClientRect entry) (s\<lparr>stopped := False\<rparr>))
        else s)"
  have s1: "intersectionObserver s1 = Some i" "observers s1 = observers s"
    "frames s1 = frames s" "positionRAF s1 = positionRAF s"
    using assms(2) by (simp_all add: s1_def positionObserverCallback_def updatePosition_def)
  have z: "finerWindowFrame entry s =
      observe (entry_target entry) (disconnect (unobserve_current (entry_target entry) s1))"
    unfolding s1_def by (rule finerWindowFrame_ratio_zero[OF assms(1)])
  have obs: "observers (disconnect (unobserve_current (entry_target entry) s1)) =
      (observers s)[i := (observers s ! i)\<lparr>io_targets := []\<rparr>]"
    using teardown_current[of s1 i "entry_target entry"] s1 assms(3) by simp
  show "observers (finerWindowFrame entry s) =
           (observers s)[i := (observers s ! i)\<lparr>io_targets := []\<rparr>] @
           [\<lparr>io_callback = ViewportWindowDetectionCallback, io_root = DocumentRoot,
             io_rootMargin = zero_margins, io_targets = [entry_target entry]\<rparr>]"
    by (simp add: z observers_observe obs)
  show "intersectionObserver (finerWindowFrame entry s) = Some (length (observers s))"
    by (simp add: z observe_fields obs)
  show "target (finerWindowFrame entry s) = Some (entry_target entry)"
    by (simp add: z observe_fields)
  show "frames (finerWindowFrame entry s) = frames s"
    by (simp add: z observe_fields teardown_current_fields s1)
  show "positionRAF (finerWindowFrame entry s) = positionRAF s"
    by (simp add: z observe_fields teardown_current_fields s1)
qed

lemma deliver_fine_then_frame:
  assumes "i < length (observers s)"
    and "io_callback (observers s ! i) = FinerWindowCallback"
    and "handles_ok s"
  shows "fire_frame g (nextHandle s) (outcome_state (deliver vv i (entry # rest) s)) =
           finerWindowFrame entry (s\<lparr>nextHandle := nextHandle s + 1\<rparr>)"
proof -
  have "outcome_state (deliver vv i (entry # rest) s) =
          snd (requestAnimationFrame (FinerWindowFrame entry) s)"
    using assms(1,2) by (simp add: deliver_def finerWindowCallback_def outcome_state_def)
  then show ?thesis
    by (simp add: fire_requested_frame[OF assms(3)] run_frame_callback_def)
qed

lemma viewport_positive_effect:
  assumes "entry_intersectionRatio entry > 0"
    and "entry_rootBounds entry = Some rb"
    and "intersectionObserver s = Some i"
    and "i < length (observers s)"
  shows "viewportWindowDetectionCallback vv (entry # rest) s =
     Inr (s\<lparr>observers :=
              (observers s)[i := (observers s ! i)\<lparr>io_targets := []\<rparr>] @
              [\<lparr>io_callback = FinerWindowCallback, io_root = DocumentRoot,
                io_rootMargin =
                  getMargins vv (constructBoxWindow (entry_intersectionRect entry) rb) (Some rb),
                io_targets = [entry_target entry]\<rparr>],
            intersectionObserver := Some (length (observers s))\<rparr>)"
  using assms
  by (simp add: viewportWindowDetectionCallback_def Let_def disconnect_def unobserve_current_def
      observe_current_def new_IntersectionObserver_def io_disconnect_def io_unobserve_def
      io_observe_def update_targets_def nth_append)

lemma finerWindowFrame_partial_effect:
  assumes "0 < entry_intersectionRatio entry" "entry_intersectionRatio entry < 1"
    and "hasPositionChanged (entry_boundingClientRect entry) s"
    and "intersectionObserver s = Some i"
    and "i < length (observers s)"
  shows "observers (finerWindowFrame entry s) =
           (observers s)[i := (observers s ! i)\<lparr>io_targets := []\<rparr>]"
    and "frames (finerWindowFrame entry s) = frames s @ [(nextHandle s, RepeatedCheck)]"
    and "positionRAF (finerWindowFrame entry s) = Some (nextHandle s)"
    and "intersectionObserver (finerWindowFrame entry s) = Some i"
    and "timeToWaitTillStopConfirmed (finerWindowFrame entry s) = \<lceil>waitTime s / 16\<rceil>"
    and "\<not> hasPositionChanged (entry_boundingClientRect entry) (finerWindowFrame entry s)"
  using assms
  by (simp_all add: finerWindowFrame_def Let_def disconnect_def unobserve_current_def
      io_disconnect_def io_unobserve_def update_targets_def requestAnimationFrame_def
      positionObserverCallback_def updatePosition_def hasPositionChanged_def)

lemma observers_observe_2io:
  "observers_2io (observe_2io t s) =
     observers_2io s @ [\<lparr>io_callback = BackupViewportCallback, io_root = ImplicitRoot,
                         io_rootMargin = zero_margins, io_targets = [t]\<rparr>]"
  by (simp add: observe_2io_def new_IntersectionObserver_def io_observe_def update_targets_def
      Let_def)

text \<open>
  Claim C3.  Let the controller's current observer be a fine watcher, and let the host
  deliver to it a batch whose first entry has intersection ratio 0.  Once the frame the
  handler requested has run, the fine watcher has no target left, the controller's
  observer is a new one on the document with zero margins and the viewport handler,
  observing the entry's target, and the handler has requested no poll tick: the pending
  requests and the handle the controller holds are what they were before.  The two
  hypotheses on references hold in every reachable state (\<open>ok_reachable\<close>).
\<close>

theorem fine_ratio_zero_returns_to_coarse:
  assumes "entry_intersectionRatio entry = 0"
    and "intersectionObserver s = Some i"
    and "i < length (observers s)"
    and "io_callback (observers s ! i) = FinerWindowCallback"
    and "handles_ok s"
  shows "let s' = fire_frame g (nextHandle s) (outcome_state (deliver vv i (entry # rest) s))
         in observers s' =
              (observers s)[i := (observers s ! i)\<lparr>io_targets := []\<rparr>] @
              [\<lparr>io_callback = ViewportWindowDetectionCallback, io_root = DocumentRoot,
                io_rootMargin = zero_margins, io_targets = [entry_target entry]\<rparr>]
          \<and> intersectionObserver s' = Some (length (observers s))
          \<and> target s' = Some (entry_target entry)
          \<and> frames s' = frames s
          \<and> positionRAF s' = positionRAF s"
proof -
  let ?s0 = "s\<lparr>nextHandle := nextHandle s + 1\<rparr>"
  have r: "intersectionObserver ?s0 = Some i" "i < length (observers ?s0)"
    using assms(2,3) by simp_all
  show ?thesis
    unfolding Let_def deliver_fine_then_frame[OF assms(3,4,5)]
    using finerWindowFrame_zero_effect[OF assms(1) r] by simp
qed

theorem fine_ratio_zero_returns_to_coarse_witness:
  "entry_intersectionRatio (example_entry_gone) = 0
   \<and> intersectionObserver example_fine_state = Some 1
   \<and> 1 < length (observers example_fine_state)
   \<and> io_callback (observers example_fine_state ! 1) = FinerWindowCallback
   \<and> handles_ok example_fine_state
   \<and> live (observers (run [Notify example_viewport 1 [example_entry_gone],
                            Frame (\<lambda>_. example_moved) 1] example_fine_state)) = [2]
   \<and> io_callback (observers (run [Notify example_viewport 1 [example_entry_gone],
                            Frame (\<lambda>_. example_moved) 1] example_fine_state) ! 2)
       = ViewportWindowDetectionCallback
   \<and> frames (run [Notify example_viewport 1 [example_entry_gone],
                  Frame (\<lambda>_. example_moved) 1] example_fine_state) = []"
  using fine_ratio_zero_returns_to_coarse
    [of "example_entry_gone" example_fine_state 1 "\<lambda>_. example_moved" example_viewport "[]"]
  by (simp add: host_defs controller_defs geometry_defs example_defs Let_def)

section \<open>Tearing down\<close>

text \<open>
  Claim C2, as amended.  A watcher handler that replaces the detection mechanism first
  empties the subscription of the controller's current observer and then creates the
  next mechanism: the viewport handler at a positive ratio (next: a fine watcher), the
  deferred body of the fine handler at ratio 0 (next: a coarse watcher) and at a ratio
  strictly between 0 and 1 when the position has changed (next: a poll tick).
  \<open>observe\<close> itself tears nothing down, in version 2 and in the variant with two
  observers: it appends a new observer and leaves every earlier one as it was.
\<close>

theorem handlers_tear_down_observe_does_not:
  "(0 < entry_intersectionRatio entry \<and> entry_rootBounds entry = Some rb
      \<and> intersectionObserver s = Some i \<and> i < length (observers s) \<longrightarrow>
      observers (outcome_state (viewportWindowDetectionCallback vv (entry # rest) s)) =
        (observers s)[i := (observers s ! i)\<lparr>io_targets := []\<rparr>] @
        [\<lparr>io_callback = FinerWindowCallback, io_root = DocumentRoot,
          io_rootMargin =
            getMargins vv (constructBoxWindow (entry_intersectionRect entry) rb) (Some rb),
          io_targets = [entry_target entry]\<rparr>])
   \<and> (entry_intersectionRatio entry = 0
      \<and> intersectionObserver s = Some i \<and> i < length (observers s) \<longrightarrow>
      observers (finerWindowFrame entry s) =
        (observers s)[i := (observers s ! i)\<lparr>io_targets := []\<rparr>] @
        [\<lparr>io_callback = ViewportWindowDetectionCallback, io_root = DocumentRoot,
          io_rootMargin = zero_margins, io_targets = [entry_target entry]\<rparr>])
   \<and> (0 < entry_intersectionRatio entry \<and> entry_intersectionRatio entry < 1
      \<and> hasPositionChanged (entry_boundingClientRect entry) s
      \<and> intersectionObserver s = Some i \<and> i < length (observers s) \<longrightarrow>
      observers (finerWindowFrame entry s) =
        (observers s)[i := (observers s ! i)\<lparr>io_targets := []\<rparr>]
      \<and> frames (finerWindowFrame entry s) = frames s @ [(nextHandle s, RepeatedCheck)])
   \<and> observers (observe t s) =
       observers s @ [\<lparr>io_callback = ViewportWindowDetectionCallback, io_root = DocumentRoot,
                       io_rootMargin = zero_margins, io_targets = [t]\<rparr>]
   \<and> observers_2io (observe_2io t s') =
       observers_2io s' @ [\<lparr>io_callback = BackupViewportCallback, io_root = ImplicitRoot,
                            io_rootMargin = zero_margins, io_targets = [t]\<rparr>]"
  using viewport_positive_effect[of entry rb s i vv rest]
    finerWindowFrame_zero_effect(1)[of entry s i]
    finerWindowFrame_partial_effect(1,2)[of entry s i]
  by (simp add: observers_observe observers_observe_2io outcome_state_def)

theorem handlers_tear_down_observe_does_not_witness:
  "0 < entry_intersectionRatio example_entry_visible
   \<and> entry_rootBounds example_entry_visible = Some example_root
   \<and> intersectionObserver (observe 7 PositionObserver_new) = Some 0
   \<and> 0 < length (observers (observe 7 PositionObserver_new))
   \<and> live (observers example_fine_state) = [1]
   \<and> entry_intersectionRatio example_entry_gone = 0
   \<and> intersectionObserver example_fine_state = Some 1
   \<and> 1 < length (observers example_fine_state)
   \<and> live (observers (finerWindowFrame example_entry_gone example_fine_state)) = [2]
   \<and> 0 < entry_intersectionRatio example_entry_shifted
   \<and> entry_intersectionRatio example_entry_shifted < 1
   \<and> hasPositionChanged (entry_boundingClientRect example_entry_shifted) example_fine_state
   \<and> live (observers (finerWindowFrame example_entry_shifted example_fine_state)) = []
   \<and> frames (finerWindowFrame example_entry_shifted example_fine_state) = [(1, RepeatedCheck)]
   \<and> live (observers (observe 7 example_fine_state)) = [1, 2]
   \<and> live (observers_2io (observe_2io 7 (observe_2io 7 PositionObserver_2io_new))) = [0, 1]"
  using handlers_tear_down_observe_does_not
    [of example_entry_visible example_root "observe 7 PositionObserver_new" 0 example_viewport
        "[]" 7 "observe_2io 7 PositionObserver_2io_new"]
    handlers_tear_down_observe_does_not
    [of example_entry_gone example_window example_fine_state 1 example_viewport
        "[]" 7 "observe_2io 7 PositionObserver_2io_new"]
    handlers_tear_down_observe_does_not
    [of example_entry_shifted example_window example_fine_state 1 example_viewport
        "[]" 7 "observe_2io 7 PositionObserver_2io_new"]
  by (simp add: host_defs controller_defs controller_2io_defs geometry_defs example_defs Let_def)

text \<open>
  Claim C2 as stated fails: after a repeated \<open>observe\<close> two coarse watchers are live
  for the same target.
\<close>

theorem repeated_observe_counterexample:
  "observers (run [Observe 7, Observe 7] PositionObserver_new) =
     [\<lparr>io_callback = ViewportWindowDetectionCallback, io_root = DocumentRoot,
       io_rootMargin = zero_margins, io_targets = [7]\<rparr>,
      \<lparr>io_callback = ViewportWindowDetectionCallback, io_root = DocumentRoot,
       io_rootMargin = zero_margins, io_targets = [7]\<rparr>]
   \<and> live (observers (run [Observe 7, Observe 7] PositionObserver_new)) = [0, 1]"
  by (simp add: host_defs controller_defs geometry_defs example_defs Let_def)

text \<open>
  Claim C1, as amended.  \<open>disconnect\<close> empties the subscription of the controller's
  current observer.  It invokes no reporting callback and throws nothing; calling it a
  second time, or on a new controller, changes nothing.  It does not make a notification
  that is delivered afterwards inert: a batch with ratio 0 that reaches the viewport
  handler after \<open>disconnect\<close> is reported like any other.
\<close>

theorem disconnect_cancels_subscription:
  "(intersectionObserver s = Some i \<and> i < length (observers s) \<longrightarrow>
      io_targets (observers (disconnect s) ! i) = [])
   \<and> reports (disconnect s) = reports s
   \<and> disconnect (disconnect s) = disconnect s
   \<and> disconnect PositionObserver_new = PositionObserver_new
   \<and> (entry_intersectionRatio entry = 0 \<longrightarrow>
        reports (outcome_state
          (viewportWindowDetectionCallback vv (entry # rest) (disconnect s))) =
        reports s @
          [\<lparr>pd_x = rect_left (entry_boundingClientRect entry),
            pd_y = rect_top (entry_boundingClientRect entry),
            pd_target = entry_target entry, pd_outOfViewport = True,
            pd_rootBounds = entry_rootBounds entry\<rparr>])"
proof -
  have a: "io_targets (observers (disconnect s) ! i) = []"
    if "intersectionObserver s = Some i" "i < length (observers s)"
    using that by (simp add: disconnect_def io_disconnect_def nth_update_targets_same)
  have b: "disconnect PositionObserver_new = PositionObserver_new"
    by (simp add: disconnect_def PositionObserver_new_def)
  have c: "reports (outcome_state
          (viewportWindowDetectionCallback vv (entry # rest) (disconnect s))) =
        reports s @
          [\<lparr>pd_x = rect_left (entry_boundingClientRect entry),
            pd_y = rect_top (entry_boundingClientRect entry),
            pd_target = entry_target entry, pd_outOfViewport = True,
            pd_rootBounds = entry_rootBounds entry\<rparr>]"
    if "entry_intersectionRatio entry = 0"
    using that
    by (simp add: viewportWindowDetectionCallback_def positionObserverCallback_def Let_def
        outcome_state_def disconnect_fields)
  show ?thesis
    using a b c by (simp add: disconnect_fields disconnect_idem)
qed

theorem disconnect_cancels_subscription_witness:
  "intersectionObserver (observe 7 PositionObserver_new) = Some 0
   \<and> 0 < length (observers (observe 7 PositionObserver_new))
   \<and> entry_intersectionRatio (example_entry_outside) = 0
   \<and> live (observers (observe 7 PositionObserver_new)) = [0]
   \<and> live (observers (disconnect (observe 7 PositionObserver_new))) = []
   \<and> reports (disconnect (disconnect (observe 7 PositionObserver_new))) = []"
  using disconnect_cancels_subscription
    [of "observe 7 PositionObserver_new" 0 "example_entry_outside" example_viewport "[]"]
  by (simp add: host_defs controller_defs geometry_defs example_defs Let_def)

text \<open>
  Claim C1 as stated fails: a notification that was queued for the coarse watcher and is
  delivered after \<open>disconnect\<close> produces a report, with no \<open>observe\<close> in between.
\<close>

theorem disconnect_stale_notification_counterexample:
  "reports (run [Observe 7, Disconnect] PositionObserver_new) = []
   \<and> live (observers (run [Observe 7, Disconnect] PositionObserver_new)) = []
   \<and> reports (run [Observe 7, Disconnect, Notify example_viewport 0 [example_entry_outside]]
                PositionObserver_new)
       = [\<lparr>pd_x = 150, pd_y = 20, pd_target = 7, pd_outOfViewport = True,
           pd_rootBounds = Some example_root\<rparr>]"
  by (simp add: host_defs controller_defs geometry_defs example_defs Let_def)

section \<open>The poll loop\<close>

text \<open>
  A tick of the loop runs \<open>repeatedCheck\<close> with the fired request removed from the
  queue.  There are three kinds of tick: the bounds differ from the sample (report, reset
  the counter, go on), they do not and the counter is not zero (count down, go on), they
  do not and the counter is zero (leave the loop through \<open>observe\<close>).
\<close>

lemma poll_tick_fires:
  "poll_pending t h s \<Longrightarrow> poll_tick g s = repeatedCheck g (cancelAnimationFrame h s)"
  by (simp add: poll_pending_def poll_tick_def fire_frame_def run_frame_callback_def)

lemma unchanged_tick:
  assumes "poll_pending t h s"
    and "\<not> hasPositionChanged (g t) s"
    and "timeToWaitTillStopConfirmed s \<noteq> 0"
  shows "poll_tick g s =
           s\<lparr>frames := filter (\<lambda>p. fst p \<noteq> h) (frames s) @ [(nextHandle s, RepeatedCheck)],
             nextHandle := nextHandle s + 1,
             timeToWaitTillStopConfirmed := timeToWaitTillStopConfirmed s - 1,
             positionRAF := Some (nextHandle s)\<rparr>"
  using assms
  by (simp add: poll_tick_fires[OF assms(1)] poll_pending_def repeatedCheck_def
      cancelAnimationFrame_def hasPositionChanged_def requestAnimationFrame_def Let_def)

lemma unchanged_tick_pending:
  assumes "poll_pending t h s"
    and "\<not> hasPositionChanged (g t) s"
    and "timeToWaitTillStopConfirmed s \<noteq> 0"
  shows "poll_pending t (nextHandle s) (poll_tick g s)"
    and "\<not> hasPositionChanged (g t) (poll_tick g s)"
    and "filter (\<lambda>p. fst p \<noteq> nextHandle s) (frames (poll_tick g s))
           = filter (\<lambda>p. fst p \<noteq> h) (frames s)"
proof -
  have ok: "handles_ok s" using assms(1) by (simp add: poll_pending_def)
  show "poll_pending t (nextHandle s) (poll_tick g s)"
    using assms(1) handles_ok_filter_append(1,2)[OF ok]
    by (simp add: unchanged_tick[where g=g, OF assms] poll_pending_def handles_ok_def)
  show "\<not> hasPositionChanged (g t) (poll_tick g s)"
    using assms(2) by (simp add: unchanged_tick[where g=g, OF assms] hasPositionChanged_def)
  show "filter (\<lambda>p. fst p \<noteq> nextHandle s) (frames (poll_tick g s))
           = filter (\<lambda>p. fst p \<noteq> h) (frames s)"
    using handles_ok_filter_append(3)[OF ok]
    by (simp add: unchanged_tick[where g=g, OF assms])
qed

lemma unchanged_tick_fields:
  assumes "poll_pending t h s"
    and "\<not> hasPositionChanged (g t) s"
    and "timeToWaitTillStopConfirmed s \<noteq> 0"
  shows "timeToWaitTillStopConfirmed (poll_tick g s) = timeToWaitTillStopConfirmed s - 1"
    and "reports (poll_tick g s) = reports s"
    and "previousPositionInfo (poll_tick g s) = previousPositionInfo s"
    and "observers (poll_tick g s) = observers s"
    and "intersectionObserver (poll_tick g s) = intersectionObserver s"
  by (simp_all add: unchanged_tick[where g=g, OF assms])

lemma poll_ticks_unchanged:
  assumes "poll_pending t h s"
    and "\<not> hasPositionChanged (g t) s"
    and "timeToWaitTillStopConfirmed s = int n"
    and "k \<le> n"
  shows "\<exists>h'. poll_pending t h' (poll_ticks k g s)
          \<and> \<not> hasPositionChanged (g t) (poll_ticks k g s)
          \<and> timeToWaitTillStopConfirmed (poll_ticks k g s) = int (n - k)
          \<and> reports (poll_ticks k g s) = reports s
          \<and> previousPositionInfo (poll_ticks k g s) = previousPositionInfo s
          \<and> observers (poll_ticks k g s) = observers s
          \<and> intersectionObserver (poll_ticks k g s) = intersectionObserver s
          \<and> filter (\<lambda>p. fst p \<noteq> h') (frames (poll_ticks k g s))
              = filter (\<lambda>p. fst p \<noteq> h) (frames s)"
  using assms
proof (induction k arbitrary: s h n)
  case 0
  then show ?case by auto
next
  case (Suc k)
  let ?s' = "poll_tick g s"
  have nz: "timeToWaitTillStopConfirmed s \<noteq> 0" using Suc.prems(3,4) by simp
  note p = unchanged_tick_pending[where g=g, OF Suc.prems(1,2) nz]
  note f = unchanged_tick_fields[where g=g, OF Suc.prems(1,2) nz]
  have c: "timeToWaitTillStopConfirmed ?s' = int (n - 1)"
    using f(1) Suc.prems(3,4) by simp
  have k: "k \<le> n - 1" using Suc.prems(4) by simp
  from Suc.IH[OF p(1) p(2) c k]
  obtain h' where
    "poll_pending t h' (poll_ticks k g ?s')"
    "\<not> hasPositionChanged (g t) (poll_ticks k g ?s')"
    "timeToWaitTillStopConfirmed (poll_ticks k g ?s') = int (n - 1 - k)"
    "reports (poll_ticks k g ?s') = reports ?s'"
    "previousPositionInfo (poll_ticks k g ?s') = previousPositionInfo ?s'"
    "observers (poll_ticks k g ?s') = observers ?s'"
    "intersectionObserver (poll_ticks k g ?s') = intersectionObserver ?s'"
    "filter (\<lambda>p. fst p \<noteq> h') (frames (poll_ticks k g ?s'))
       = filter (\<lambda>p. fst p \<noteq> nextHandle s) (frames ?s')"
    by blast
  then show ?case
    using f p(3) by (intro exI[of _ h']) simp
qed

lemma exit_tick:
  assumes "poll_pending t h s"
    and "\<not> hasPositionChanged (g t) s"
    and "timeToWaitTillStopConfirmed s = 0"
  shows "poll_tick g s = observe t (cancelAnimationFrame h s)"
  using assms
  by (simp add: poll_tick_fires[OF assms(1)] poll_pending_def repeatedCheck_def
      cancelAnimationFrame_def hasPositionChanged_def cancel_positionRAF_def Let_def)

lemma exit_tick_fields:
  assumes "poll_pending t h s"
    and "\<not> hasPositionChanged (g t) s"
    and "timeToWaitTillStopConfirmed s = 0"
  shows "frames (poll_tick g s) = filter (\<lambda>p. fst p \<noteq> h) (frames s)"
    and "observers (poll_tick g s) =
           observers s @ [\<lparr>io_callback = ViewportWindowDetectionCallback, io_root = DocumentRoot,
                           io_rootMargin = zero_margins, io_targets = [t]\<rparr>]"
    and "intersectionObserver (poll_tick g s) = Some (length (observers s))"
    and "reports (poll_tick g s) = reports s"
    and "previousPositionInfo (poll_tick g s) = previousPositionInfo s"
  by (simp_all add: exit_tick[where g=g, OF assms] observers_observe observe_fields
      cancelAnimationFrame_def)

lemma exit_tick_inert:
  assumes "poll_pending t h s"
    and "\<not> hasPositionChanged (g t) s"
    and "timeToWaitTillStopConfirmed s = 0"
  shows "poll_tick g' (poll_tick g s) = poll_tick g s"
proof -
  have "h \<notin> fst ` set (filter (\<lambda>p. fst p \<noteq> h) (frames s))" by auto
  then have "map_of (filter (\<lambda>p. fst p \<noteq> h) (frames s)) h = None"
    by (simp add: map_of_eq_None_iff)
  moreover have "positionRAF (poll_tick g s) = Some h"
    using assms(1)
    by (simp add: exit_tick[where g=g, OF assms] observe_fields cancelAnimationFrame_def
        poll_pending_def)
  ultimately show ?thesis
    using exit_tick_fields(1)[where g=g, OF assms]
    by (simp add: poll_tick_def fire_frame_def)
qed

lemma changed_tick:
  assumes "poll_pending t h s"
    and "hasPositionChanged (g t) s"
  shows "poll_tick g s =
           s\<lparr>previousPositionInfo :=
                Some \<lparr>info_top = rect_top (g t), info_left = rect_left (g t),
                      info_width = rect_width (g t), info_height = rect_height (g t)\<rparr>,
             reports := reports s @
                [\<lparr>pd_x = rect_left (g t), pd_y = rect_top (g t), pd_target = t,
                  pd_outOfViewport = False, pd_rootBounds = Some (g t)\<rparr>],
             timeToWaitTillStopConfirmed := \<lceil>waitTime s / 16\<rceil>,
             frames := filter (\<lambda>p. fst p \<noteq> h) (frames s) @ [(nextHandle s, RepeatedCheck)],
             nextHandle := nextHandle s + 1,
             positionRAF := Some (nextHandle s)\<rparr>"
proof -
  have c: "hasPositionChanged (g t) (cancelAnimationFrame h s)"
    using assms(2) by (simp add: hasPositionChanged_def cancelAnimationFrame_def)
  have t: "target (cancelAnimationFrame h s) = Some t"
    using assms(1) by (simp add: poll_pending_def cancelAnimationFrame_def)
  show ?thesis
    unfolding poll_tick_fires[OF assms(1)] repeatedCheck_def
    using c t
    by (simp add: cancelAnimationFrame_def requestAnimationFrame_def Let_def
        updatePosition_def positionObserverCallback_def)
qed

lemma changed_tick_pending:
  assumes "poll_pending t h s"
    and "hasPositionChanged (g t) s"
  shows "poll_pending t (nextHandle s) (poll_tick g s)"
    and "\<not> hasPositionChanged (g t) (poll_tick g s)"
    and "timeToWaitTillStopConfirmed (poll_tick g s) = \<lceil>waitTime s / 16\<rceil>"
    and "waitTime (poll_tick g s) = waitTime s"
proof -
  have ok: "handles_ok s" using assms(1) by (simp add: poll_pending_def)
  show "poll_pending t (nextHandle s) (poll_tick g s)"
    using assms(1) handles_ok_filter_append(1,2)[OF ok]
    by (simp add: changed_tick[where g=g, OF assms] poll_pending_def handles_ok_def)
  show "\<not> hasPositionChanged (g t) (poll_tick g s)"
    by (simp add: changed_tick[where g=g, OF assms] hasPositionChanged_def)
  show "timeToWaitTillStopConfirmed (poll_tick g s) = \<lceil>waitTime s / 16\<rceil>"
    by (simp add: changed_tick[where g=g, OF assms])
  show "waitTime (poll_tick g s) = waitTime s"
    by (simp add: changed_tick[where g=g, OF assms])
qed

text \<open>
  Claim C7, as amended.  Let the loop be running with a non-negative stillness wait
  \<open>W\<close> and the counter just reset to \<open>ceil (W / 16)\<close>, as a tick that sees a change
  leaves it (\<open>changed_tick_pending\<close>) and as the fine handler leaves it when it enters
  the loop (\<open>finerWindowFrame_partial_effect\<close>); and let the bounds be the recorded
  sample from now on.  Then each of the next \<open>ceil (W / 16)\<close> ticks decrements the
  counter by one, reports nothing and requests the next tick; and the tick after them,
  which is \<open>ceil (W / 16)\<close> ticks after the first one that found the bounds unchanged,
  requests no tick, reports nothing and calls \<open>observe\<close>: a new coarse watcher on the
  target is the controller's observer.  No request of the loop is left, so a further tick
  does nothing.  The cached position sample is kept as it is, not cleared.
\<close>

theorem stillness_convergence:
  assumes "poll_pending t h s"
    and "\<not> hasPositionChanged (g t) s"
    and "0 \<le> waitTime s"
    and "timeToWaitTillStopConfirmed s = \<lceil>waitTime s / 16\<rceil>"
  shows "(\<forall>k\<le>nat \<lceil>waitTime s / 16\<rceil>.
              timeToWaitTillStopConfirmed (poll_ticks k g s) = \<lceil>waitTime s / 16\<rceil> - int k
              \<and> reports (poll_ticks k g s) = reports s
              \<and> (\<exists>h'. poll_pending t h' (poll_ticks k g s)))
       \<and> frames (poll_ticks (Suc (nat \<lceil>waitTime s / 16\<rceil>)) g s)
           = filter (\<lambda>p. fst p \<noteq> h) (frames s)
       \<and> observers (poll_ticks (Suc (nat \<lceil>waitTime s / 16\<rceil>)) g s) =
           observers s @ [\<lparr>io_callback = ViewportWindowDetectionCallback, io_root = DocumentRoot,
                           io_rootMargin = zero_margins, io_targets = [t]\<rparr>]
       \<and> intersectionObserver (poll_ticks (Suc (nat \<lceil>waitTime s / 16\<rceil>)) g s)
           = Some (length (observers s))
       \<and> reports (poll_ticks (Suc (nat \<lceil>waitTime s / 16\<rceil>)) g s) = reports s
       \<and> previousPositionInfo (poll_ticks (Suc (nat \<lceil>waitTime s / 16\<rceil>)) g s)
           = previousPositionInfo s
       \<and> poll_tick g' (poll_ticks (Suc (nat \<lceil>waitTime s / 16\<rceil>)) g s)
           = poll_ticks (Suc (nat \<lceil>waitTime s / 16\<rceil>)) g s"
proof -
  define n where "n = nat \<lceil>waitTime s / 16\<rceil>"
  have "0 \<le> \<lceil>waitTime s / 16\<rceil>" using assms(3) by (simp add: ceiling_le_iff le_ceiling_iff)
  then have n: "\<lceil>waitTime s / 16\<rceil> = int n" by (simp add: n_def)
  have c: "timeToWaitTillStopConfirmed s = int n" using assms(4) n by simp
  have count: "timeToWaitTillStopConfirmed (poll_ticks k g s) = int n - int k
              \<and> reports (poll_ticks k g s) = reports s
              \<and> (\<exists>h'. poll_pending t h' (poll_ticks k g s))" if "k \<le> n" for k
    using poll_ticks_unchanged[where g=g, OF assms(1,2) c that] that by auto
  have step: "poll_ticks (Suc m) g' x = poll_tick g' (poll_ticks m g' x)" for m g' x
    by (induction m arbitrary: x) simp_all
  from poll_ticks_unchanged[where g=g, OF assms(1,2) c order_refl]
  obtain h' where e:
    "poll_pending t h' (poll_ticks n g s)"
    "\<not> hasPositionChanged (g t) (poll_ticks n g s)"
    "timeToWaitTillStopConfirmed (poll_ticks n g s) = 0"
    "reports (poll_ticks n g s) = reports s"
    "previousPositionInfo (poll_ticks n g s) = previousPositionInfo s"
    "observers (poll_ticks n g s) = observers s"
    "intersectionObserver (poll_ticks n g s) = intersectionObserver s"
    "filter (\<lambda>p. fst p \<noteq> h') (frames (poll_ticks n g s)) = filter (\<lambda>p. fst p \<noteq> h) (frames s)"
    by auto
  note x = exit_tick_fields[where g=g, OF e(1,2,3)]
  have "frames (poll_ticks (Suc n) g s) = filter (\<lambda>p. fst p \<noteq> h) (frames s)"
    "observers (poll_ticks (Suc n) g s) =
           observers s @ [\<lparr>io_callback = ViewportWindowDetectionCallback, io_root = DocumentRoot,
                           io_rootMargin = zero_margins, io_targets = [t]\<rparr>]"
    "intersectionObserver (poll_ticks (Suc n) g s) = Some (length (observers s))"
    "reports (poll_ticks (Suc n) g s) = reports s"
    "previousPositionInfo (poll_ticks (Suc n) g s) = previousPositionInfo s"
    "poll_tick g' (poll_ticks (Suc n) g s) = poll_ticks (Suc n) g s"
    unfolding step using x e exit_tick_inert[where g=g and g'=g', OF e(1,2,3)] by simp_all
  with count show ?thesis unfolding n by (simp only: nat_int) blast
qed

theorem stillness_convergence_witness:
  "poll_pending 7 2 (example_polling_state\<lparr>waitTime := 48, timeToWaitTillStopConfirmed := 3\<rparr>)
   \<and> \<not> hasPositionChanged example_shifted
         (example_polling_state\<lparr>waitTime := 48, timeToWaitTillStopConfirmed := 3\<rparr>)
   \<and> (0::real) \<le> 48 \<and> (3::int) = \<lceil>(48::real) / 16\<rceil>
   \<and> frames (poll_ticks (Suc 3) (\<lambda>_. example_shifted)
        (example_polling_state\<lparr>waitTime := 48, timeToWaitTillStopConfirmed := 3\<rparr>)) = []
   \<and> live (observers (poll_ticks (Suc 3) (\<lambda>_. example_shifted)
        (example_polling_state\<lparr>waitTime := 48, timeToWaitTillStopConfirmed := 3\<rparr>))) = [2]
   \<and> length (reports (poll_ticks (Suc 3) (\<lambda>_. example_shifted)
        (example_polling_state\<lparr>waitTime := 48, timeToWaitTillStopConfirmed := 3\<rparr>))) = 1"
  using stillness_convergence
    [of 7 2 "example_polling_state\<lparr>waitTime := 48, timeToWaitTillStopConfirmed := 3\<rparr>"
        "\<lambda>_. example_shifted" "\<lambda>_. example_shifted"]
  by (simp add: host_defs controller_defs geometry_defs example_defs Let_def)

text \<open>
  Claim C7 as stated fails where it says that the cached sample is cleared: when the
  loop of the example has left through \<open>observe\<close>, the sample is still recorded.
\<close>

theorem stillness_keeps_sample_counterexample:
  "frames example_polling_state = [(2, RepeatedCheck)]
   \<and> frames (run [Frame (\<lambda>_. example_shifted) 2] example_polling_state) = []
   \<and> live (observers (run [Frame (\<lambda>_. example_shifted) 2] example_polling_state)) = [2]
   \<and> previousPositionInfo (run [Frame (\<lambda>_. example_shifted) 2] example_polling_state)
       = Some \<lparr>info_top = 20, info_left = 26, info_width = 30, info_height = 40\<rparr>"
  by (simp add: host_defs controller_defs geometry_defs example_defs Let_def)

text \<open>
  Claim C10, as amended.  \<open>hasPositionChanged\<close> is true whenever no sample is
  recorded, so a poll tick that finds no sample records one and reports once, whatever
  the bounds are.  But the deferred body of the fine handler, the only place that
  requests a poll tick from outside the loop, always leaves a sample recorded, and a tick
  that finds the bounds equal to the sample reports nothing and leaves the sample alone.
  So in every state reached from a new controller in which the loop is running a sample
  is recorded, and the first poll tick reports only if the bounds differ from it.
\<close>

theorem first_sample_always_reported:
  "(previousPositionInfo s = None \<longrightarrow> hasPositionChanged r s)
   \<and> (previousPositionInfo s = None \<and> target s = Some t \<longrightarrow>
        (\<exists>d. reports (repeatedCheck g s) = reports s @ [d]
            \<and> pd_x d = rect_left (g t) \<and> pd_y d = rect_top (g t) \<and> \<not> pd_outOfViewport d)
        \<and> previousPositionInfo (repeatedCheck g s) =
            Some \<lparr>info_top = rect_top (g t), info_left = rect_left (g t),
                  info_width = rect_width (g t), info_height = rect_height (g t)\<rparr>)
   \<and> previousPositionInfo (finerWindowFrame entry s) \<noteq> None
   \<and> (target s = Some t \<and> \<not> hasPositionChanged (g t) s \<longrightarrow>
        reports (repeatedCheck g s) = reports s
        \<and> previousPositionInfo (repeatedCheck g s) = previousPositionInfo s)
   \<and> (poll_pending t h (run evs PositionObserver_new) \<longrightarrow>
        previousPositionInfo (run evs PositionObserver_new) \<noteq> None)"
proof -
  have a: "previousPositionInfo s = None \<longrightarrow> hasPositionChanged r s"
    by (simp add: hasPositionChanged_def)
  have b: "(\<exists>d. reports (repeatedCheck g s) = reports s @ [d]
            \<and> pd_x d = rect_left (g t) \<and> pd_y d = rect_top (g t) \<and> \<not> pd_outOfViewport d)
        \<and> previousPositionInfo (repeatedCheck g s) =
            Some \<lparr>info_top = rect_top (g t), info_left = rect_left (g t),
                  info_width = rect_width (g t), info_height = rect_height (g t)\<rparr>"
    if "previousPositionInfo s = None" "target s = Some t"
    using that
    by (simp add: repeatedCheck_def hasPositionChanged_def Let_def updatePosition_def
        positionObserverCallback_def requestAnimationFrame_def)
  have c: "previousPositionInfo (finerWindowFrame entry s) \<noteq> None"
  proof (cases "previousPositionInfo s")
    case None
    then show ?thesis
      by (simp add: finerWindowFrame_def hasPositionChanged_def Let_def updatePosition_def
          positionObserverCallback_def requestAnimationFrame_def observe_fields
          teardown_current_fields split: prod.splits)
  next
    case (Some p)
    then show ?thesis
      by (simp add: finerWindowFrame_def Let_def updatePosition_def
          positionObserverCallback_def requestAnimationFrame_def observe_fields
          teardown_current_fields split: prod.splits)
  qed
  have d: "reports (repeatedCheck g s) = reports s
        \<and> previousPositionInfo (repeatedCheck g s) = previousPositionInfo s"
    if "target s = Some t" "\<not> hasPositionChanged (g t) s"
    using that
    by (simp add: repeatedCheck_def Let_def requestAnimationFrame_def observe_fields
        cancel_positionRAF_def cancelAnimationFrame_def split: option.splits)
  show ?thesis using a b c d poll_pending_has_sample[of t h evs] by blast
qed

theorem first_sample_always_reported_witness:
  "previousPositionInfo (observe 7 PositionObserver_new) = None
   \<and> target (observe 7 PositionObserver_new) = Some 7
   \<and> hasPositionChanged example_bounds (observe 7 PositionObserver_new)
   \<and> length (reports (repeatedCheck (\<lambda>_. example_bounds) (observe 7 PositionObserver_new))) = 1
   \<and> target example_polling_state = Some 7
   \<and> \<not> hasPositionChanged example_shifted example_polling_state
   \<and> reports (repeatedCheck (\<lambda>_. example_shifted) example_polling_state)
       = reports example_polling_state
   \<and> poll_pending 7 2
        (run [Observe 7, Notify example_viewport 0 [example_entry_visible],
              Notify example_viewport 1 [example_entry_shifted],
              Frame (\<lambda>_. example_shifted) 1] PositionObserver_new)
   \<and> previousPositionInfo example_polling_state
       = Some \<lparr>info_top = 20, info_left = 26, info_width = 30, info_height = 40\<rparr>"
  using first_sample_always_reported
    [of "observe 7 PositionObserver_new" example_bounds 7 "\<lambda>_. example_bounds"
        example_entry_gone 2
        "[Observe 7, Notify example_viewport 0 [example_entry_visible],
          Notify example_viewport 1 [example_entry_shifted],
          Frame (\<lambda>_. example_shifted) 1]"]
    first_sample_always_reported
    [of example_polling_state example_shifted 7 "\<lambda>_. example_shifted" example_entry_gone 2
        "[Observe 7, Notify example_viewport 0 [example_entry_visible],
          Notify example_viewport 1 [example_entry_shifted],
          Frame (\<lambda>_. example_shifted) 1]"]
  by (simp add: host_defs controller_defs geometry_defs example_defs Let_def)

text \<open>
  Claim C10 as stated fails: in the example the loop is entered with one report made,
  and its first tick, with the bounds where they were, adds none.
\<close>

theorem first_poll_tick_counterexample:
  "frames example_polling_state = [(2, RepeatedCheck)]
   \<and> length (reports example_polling_state) = 1
   \<and> reports (run [Frame (\<lambda>_. example_shifted) 2] example_polling_state)
       = reports example_polling_state"
  by (simp add: host_defs controller_defs geometry_defs example_defs Let_def)

text \<open>
  Claim C8 at a failing input.  The target of the example moves on while the loop runs.
  The report of the tick carries the new left and top as \<open>x\<close> and \<open>y\<close> and
  \<open>outOfViewport\<close> false, but its \<open>rootBounds\<close> is the target's own rectangle: not
  the viewport, and not the fine watcher's root, which the report of the fine handler
  before it carried.  Every tick that sees a change reports like this (\<open>changed_tick\<close>).
\<close>

theorem poll_report_rootBounds_is_target_rect:
  "reports (run [Frame (\<lambda>_. example_moved) 2] example_polling_state) =
     [\<lparr>pd_x = 26, pd_y = 20, pd_target = 7, pd_outOfViewport = False,
       pd_rootBounds = Some example_window\<rparr>,
      \<lparr>pd_x = 60, pd_y = 20, pd_target = 7, pd_outOfViewport = False,
       pd_rootBounds = Some example_moved\<rparr>]
   \<and> example_moved \<noteq> example_window \<and> example_moved \<noteq> example_root"
  by (simp add: host_defs controller_defs geometry_defs example_defs Let_def)

end
